theory Spec2Isabelle
  imports Complex_Main "HOL-Library.Signed_Division"
begin

section \<open>Numeric model\<close>

text \<open>
  The kernels of \<^verbatim>\<open>roi_pooling_layer.cu\<close> are templates over \<^verbatim>\<open>Dtype\<close>, instantiated at
  \<^verbatim>\<open>float\<close> and \<^verbatim>\<open>double\<close>. A value of \<^verbatim>\<open>Dtype\<close> is modelled by the real number it
  denotes, and every operation of the kernels that produces a \<^verbatim>\<open>Dtype\<close> (the conversion
  from \<^verbatim>\<open>int\<close>, multiplication, division, addition) is the exact operation followed by
  rounding to the precision of the type: \<open>fl D x\<close> is the number with a significand of 24
  bits (single precision) or 53 bits (double precision) nearest to \<open>x\<close>, halfway cases going
  to the even significand. The exponent is not bounded, so overflow to infinity and
  subnormal numbers are not modelled, and there is no NaN. The functions \<^verbatim>\<open>round\<close>,
  \<^verbatim>\<open>floor\<close> and \<^verbatim>\<open>ceil\<close> are exact on every value of the type. The elements of the
  buffers are inputs; the model does not round them.

  The C type \<^verbatim>\<open>int\<close> has 32 bits. The conversion of a \<^verbatim>\<open>Dtype\<close> to \<^verbatim>\<open>int\<close> truncates
  towards zero and is modelled as saturating at the bounds of \<^verbatim>\<open>int\<close> (\<open>sat32\<close>).
  Additions and subtractions on the coordinates of a region, which are read from the region
  list and can be any \<^verbatim>\<open>int\<close>, are modelled as wrapping around modulo \<open>2^32\<close> (\<open>i32\<close>).
  The arithmetic on indices and offsets into the buffers (decoding \<open>index\<close>, the flat
  coordinate of an element, the offset of a batch slot and channel) is over the
  mathematical integers: for coordinates inside the buffers it stays below their element
  counts. Integer \<^verbatim>\<open>/\<close> and \<^verbatim>\<open>%\<close> truncate towards zero (\<open>sdiv\<close>, \<open>smod\<close>). Device buffers
  are total functions from addresses (offsets from the buffer's base pointer) to values, so
  a read or write at any offset is defined. Division by a pooled extent of 0 is not
  modelled: the pooled extents are taken to be positive where a property depends on it.
\<close>

type_synonym Dtype = real

datatype precision = Single | Double

text \<open>The number of bits of the significand, the implicit leading bit included.\<close>

fun prec :: "precision \<Rightarrow> nat" where
  "prec Single = 24"
| "prec Double = 53"

text \<open>The integer nearest to \<open>x\<close>, halfway cases to the even integer.\<close>

definition round_even :: "real \<Rightarrow> int" where
  "round_even x =
     (let f = \<lfloor>x\<rfloor>; r = x - real_of_int f in
      if r < 1 / 2 then f else if 1 / 2 < r then f + 1 else if even f then f else f + 1)"

text \<open>The binary exponent of \<open>x \<noteq> 0\<close>: \<open>2 ^ expo x \<le> \<bar>x\<bar> < 2 ^ (expo x + 1)\<close>.\<close>

definition expo :: "real \<Rightarrow> int" where
  "expo x = \<lfloor>log 2 \<bar>x\<bar>\<rfloor>"

text \<open>Rounding to a significand of \<open>p\<close> bits: \<open>x\<close> is scaled by the unit in its last place
  so that the significand is an integer of \<open>p\<close> bits, rounded to the nearest integer, and
  scaled back.\<close>

definition round_to :: "nat \<Rightarrow> real \<Rightarrow> real" where
  "round_to p x =
     (if x = 0 then 0
      else let u = 2 powi (expo x - int p + 1) in
           sgn x * (real_of_int (round_even (\<bar>x\<bar> / u)) * u))"

definition fl :: "precision \<Rightarrow> real \<Rightarrow> Dtype" where
  "fl D x = round_to (prec D) x"

text \<open>\<^verbatim>\<open>static_cast<Dtype>\<close> of an \<^verbatim>\<open>int\<close>.\<close>

definition to_Dtype :: "precision \<Rightarrow> int \<Rightarrow> Dtype" where
  "to_Dtype D n = fl D (real_of_int n)"

text \<open>\<^verbatim>\<open>FLT_MAX\<close> of the header \<^verbatim>\<open>cfloat\<close>: the largest finite IEEE single, \<open>2^128 - 2^104\<close>.\<close>

definition FLT_MAX :: Dtype where
  "FLT_MAX = 2 ^ 128 - 2 ^ 104"

text \<open>The value of a 32-bit two's-complement \<^verbatim>\<open>int\<close> after an operation whose exact result
  is \<open>x\<close>.\<close>

definition i32 :: "int \<Rightarrow> int" where
  "i32 x = (x + 2 ^ 31) mod 2 ^ 32 - 2 ^ 31"

text \<open>The integer \<open>x\<close> brought into the range of \<^verbatim>\<open>int\<close>.\<close>

definition sat32 :: "int \<Rightarrow> int" where
  "sat32 x = min (max x (- (2 ^ 31))) (2 ^ 31 - 1)"

text \<open>\<^verbatim>\<open>round\<close> of C, to the nearest integer with halfway cases away from zero, with the
  result stored in an \<^verbatim>\<open>int\<close>.\<close>

definition c_round :: "Dtype \<Rightarrow> int" where
  "c_round x = sat32 (if 0 \<le> x then \<lfloor>x + 1 / 2\<rfloor> else \<lceil>x - 1 / 2\<rceil>)"

text \<open>Conversion of a \<^verbatim>\<open>Dtype\<close> to \<^verbatim>\<open>int\<close>: truncation towards zero.\<close>

definition c_int :: "Dtype \<Rightarrow> int" where
  "c_int x = sat32 (if 0 \<le> x then \<lfloor>x\<rfloor> else \<lceil>x\<rceil>)"

text \<open>\<^verbatim>\<open>floor\<close> and \<^verbatim>\<open>ceil\<close> with the result converted to \<^verbatim>\<open>int\<close>.\<close>

definition c_floor :: "Dtype \<Rightarrow> int" where
  "c_floor x = sat32 \<lfloor>x\<rfloor>"

definition c_ceil :: "Dtype \<Rightarrow> int" where
  "c_ceil x = sat32 \<lceil>x\<rceil>"

section \<open>The layer\<close>

text \<open>The members of \<^verbatim>\<open>ROIPoolingLayer\<close> that the two kernels receive as arguments;
  \<open>length_dim\<close> is the member \<^verbatim>\<open>length_\<close>, the depth of the volume, and \<open>dtype\<close> is the
  type at which the template is instantiated.\<close>

record layer =
  dtype :: precision
  spatial_scale_xy :: Dtype
  spatial_scale_z :: Dtype
  channels :: int
  length_dim :: int
  height :: int
  width :: int
  pooled_length :: int
  pooled_height :: int
  pooled_width :: int

section \<open>Forward kernel\<close>

text \<open>Lines 73-77: one iteration of the innermost loop, on the pair \<open>(maxval, maxidx)\<close>.\<close>

definition scan_cell ::
  "(int \<Rightarrow> Dtype) \<Rightarrow> int \<Rightarrow> int \<Rightarrow> int \<Rightarrow> int \<Rightarrow> int \<Rightarrow> int \<Rightarrow> Dtype \<times> int \<Rightarrow> Dtype \<times> int" where
  "scan_cell bottom_data data_offset hgt wid l h w s =
     (let bottom_index = l * hgt * wid + h * wid + w in
      if bottom_data (data_offset + bottom_index) > fst s
      then (bottom_data (data_offset + bottom_index), bottom_index)
      else s)"

text \<open>Lines 70-80: the three nested loops, depth outermost, width innermost.\<close>

definition scan_box ::
  "(int \<Rightarrow> Dtype) \<Rightarrow> int \<Rightarrow> int \<Rightarrow> int \<Rightarrow> int \<Rightarrow> int \<Rightarrow> int \<Rightarrow> int \<Rightarrow> int \<Rightarrow> int
     \<Rightarrow> Dtype \<times> int \<Rightarrow> Dtype \<times> int" where
  "scan_box bottom_data data_offset hgt wid lstart lend hstart hend wstart wend s =
     fold (\<lambda>l. fold (\<lambda>h. fold (\<lambda>w. scan_cell bottom_data data_offset hgt wid l h w)
                                [wstart..wend - 1])
                     [hstart..hend - 1])
          [lstart..lend - 1] s"

text \<open>Lines 26-82: the body of the kernel loop for one \<open>index\<close>; the result is the pair
  written to \<^verbatim>\<open>top_data[index]\<close> and \<^verbatim>\<open>argmax_data[index]\<close>.\<close>

definition ROIPoolForward_body ::
  "layer \<Rightarrow> (int \<Rightarrow> Dtype) \<Rightarrow> (int \<Rightarrow> Dtype) \<Rightarrow> int \<Rightarrow> Dtype \<times> int" where
  "ROIPoolForward_body L bottom_data bottom_rois index =
    (let D = dtype L;
         pw = index smod pooled_width L;
         ph = (index sdiv pooled_width L) smod pooled_height L;
         pl = (index sdiv pooled_width L sdiv pooled_height L) smod pooled_length L;
         c = (index sdiv pooled_width L sdiv pooled_height L sdiv pooled_length L)
               smod channels L;
         n = index sdiv pooled_width L sdiv pooled_height L sdiv pooled_length L
               sdiv channels L;
         roi_offset = n * 7;
         roi_batch_ind = c_int (bottom_rois (roi_offset + 0));
         roi_start_w = c_round (fl D (bottom_rois (roi_offset + 1) * spatial_scale_xy L));
         roi_start_h = c_round (fl D (bottom_rois (roi_offset + 2) * spatial_scale_xy L));
         roi_start_l = c_round (fl D (bottom_rois (roi_offset + 3) * spatial_scale_z L));
         roi_end_w = c_round (fl D (bottom_rois (roi_offset + 4) * spatial_scale_xy L));
         roi_end_h = c_round (fl D (bottom_rois (roi_offset + 5) * spatial_scale_xy L));
         roi_end_l = c_round (fl D (bottom_rois (roi_offset + 6) * spatial_scale_z L));
         roi_width = max (i32 (i32 (roi_end_w - roi_start_w) + 1)) 1;
         roi_height = max (i32 (i32 (roi_end_h - roi_start_h) + 1)) 1;
         roi_length = max (i32 (i32 (roi_end_l - roi_start_l) + 1)) 1;
         bin_size_l = fl D (to_Dtype D roi_length / to_Dtype D (pooled_length L));
         bin_size_h = fl D (to_Dtype D roi_height / to_Dtype D (pooled_height L));
         bin_size_w = fl D (to_Dtype D roi_width / to_Dtype D (pooled_width L));
         lstart = c_floor (fl D (to_Dtype D pl * bin_size_l));
         hstart = c_floor (fl D (to_Dtype D ph * bin_size_h));
         wstart = c_floor (fl D (to_Dtype D pw * bin_size_w));
         lend = c_ceil (fl D (to_Dtype D (pl + 1) * bin_size_l));
         hend = c_ceil (fl D (to_Dtype D (ph + 1) * bin_size_h));
         wend = c_ceil (fl D (to_Dtype D (pw + 1) * bin_size_w));
         lstart = min (max (i32 (lstart + roi_start_l)) 0) (length_dim L);
         lend = min (max (i32 (lend + roi_start_l)) 0) (length_dim L);
         hstart = min (max (i32 (hstart + roi_start_h)) 0) (height L);
         hend = min (max (i32 (hend + roi_start_h)) 0) (height L);
         wstart = min (max (i32 (wstart + roi_start_w)) 0) (width L);
         wend = min (max (i32 (wend + roi_start_w)) 0) (width L);
         is_empty = (lend \<le> lstart \<or> hend \<le> hstart \<or> wend \<le> wstart);
         maxval = (if is_empty then 0 else - FLT_MAX);
         maxidx = - 1;
         data_offset = (roi_batch_ind * channels L + c) * length_dim L * height L * width L
     in scan_box bottom_data data_offset (height L) (width L)
          lstart lend hstart hend wstart wend (maxval, maxidx))"

text \<open>The two output buffers of the forward pass: the data of \<^verbatim>\<open>top[0]\<close> (the kernel's
  \<^verbatim>\<open>top_data\<close>) and of \<^verbatim>\<open>max_idx_\<close> (the kernel's \<^verbatim>\<open>argmax_data\<close>).\<close>

record fwd_bufs =
  top0_data :: "int \<Rightarrow> Dtype"
  max_idx_data :: "int \<Rightarrow> int"

text \<open>Lines 81-82: the two writes of one unit of work.\<close>

definition ROIPoolForward_unit ::
  "layer \<Rightarrow> (int \<Rightarrow> Dtype) \<Rightarrow> (int \<Rightarrow> Dtype) \<Rightarrow> int \<Rightarrow> fwd_bufs \<Rightarrow> fwd_bufs" where
  "ROIPoolForward_unit L bottom_data bottom_rois index st =
     (let r = ROIPoolForward_body L bottom_data bottom_rois index in
      st\<lparr>top0_data := (top0_data st)(index := fst r),
         max_idx_data := (max_idx_data st)(index := snd r)\<rparr>)"

text \<open>
  Modelled from the spec: the macro \<^verbatim>\<open>CUDA_KERNEL_LOOP(index, nthreads)\<close> is defined in a
  header outside the source file. The unit of work is one \<open>index\<close>; every index
  \<open>0 \<le> index < nthreads\<close> is run once. The order in which the device runs the units is
  not fixed, so the kernel takes the order as a list of indices (a schedule);
  \<open>ROIPoolForward\<close> is the kernel run in increasing order.
\<close>

definition ROIPoolForward_sched ::
  "int list \<Rightarrow> layer \<Rightarrow> (int \<Rightarrow> Dtype) \<Rightarrow> (int \<Rightarrow> Dtype) \<Rightarrow> fwd_bufs \<Rightarrow> fwd_bufs" where
  "ROIPoolForward_sched sched L bottom_data bottom_rois st =
     fold (ROIPoolForward_unit L bottom_data bottom_rois) sched st"

definition ROIPoolForward ::
  "int \<Rightarrow> layer \<Rightarrow> (int \<Rightarrow> Dtype) \<Rightarrow> (int \<Rightarrow> Dtype) \<Rightarrow> fwd_bufs \<Rightarrow> fwd_bufs" where
  "ROIPoolForward nthreads L bottom_data bottom_rois st =
     ROIPoolForward_sched [0..nthreads - 1] L bottom_data bottom_rois st"

text \<open>
  Lines 87-102. Modelled from the spec: \<^verbatim>\<open>top[0]->count()\<close> is the number of elements of
  the pooled output, of shape (regions, channels, pooled depth, pooled height, pooled width).
\<close>

definition Forward_gpu ::
  "layer \<Rightarrow> int \<Rightarrow> (int \<Rightarrow> Dtype) \<Rightarrow> (int \<Rightarrow> Dtype) \<Rightarrow> fwd_bufs \<Rightarrow> fwd_bufs" where
  "Forward_gpu L num_rois bottom_data bottom_rois st =
     (let count = num_rois * channels L * pooled_length L * pooled_height L * pooled_width L
      in ROIPoolForward count L bottom_data bottom_rois st)"

section \<open>Backward kernel\<close>

text \<open>Lines 177-179: one iteration of the innermost loop over the candidate pooled bins;
  \<^verbatim>\<open>gradient += ...\<close> is an addition of \<^verbatim>\<open>Dtype\<close>.\<close>

definition accumulate_bin ::
  "layer \<Rightarrow> (int \<Rightarrow> Dtype) \<Rightarrow> (int \<Rightarrow> int) \<Rightarrow> int \<Rightarrow> int \<Rightarrow> int \<Rightarrow> int \<Rightarrow> int \<Rightarrow> int \<Rightarrow> int
     \<Rightarrow> Dtype \<Rightarrow> Dtype" where
  "accumulate_bin L top_diff argmax_data offset l h w pl ph pw gradient =
     (if argmax_data (offset + (pl * pooled_height L * pooled_width L + ph * pooled_width L + pw))
           = l * height L * width L + h * width L + w
      then fl (dtype L)
             (gradient + top_diff (offset + (pl * pooled_height L * pooled_width L
                                               + ph * pooled_width L + pw)))
      else gradient)"

text \<open>Lines 122-182: the body of the loop over the regions, for the input element
  \<open>(n, c, l, h, w)\<close>; each \<^verbatim>\<open>continue\<close> returns the gradient unchanged.\<close>

definition ROIPoolBackward_roi ::
  "layer \<Rightarrow> (int \<Rightarrow> Dtype) \<Rightarrow> (int \<Rightarrow> int) \<Rightarrow> (int \<Rightarrow> Dtype) \<Rightarrow> int \<Rightarrow> int \<Rightarrow> int \<Rightarrow> int \<Rightarrow> int
     \<Rightarrow> int \<Rightarrow> Dtype \<Rightarrow> Dtype" where
  "ROIPoolBackward_roi L top_diff argmax_data bottom_rois n c l h w roi_n gradient =
    (let D = dtype L;
         roi_batch_ind = c_int (bottom_rois (roi_n * 7 + 0)) in
     if n \<noteq> roi_batch_ind then gradient
     else
      let roi_start_w = c_round (fl D (bottom_rois (roi_n * 7 + 1) * spatial_scale_xy L));
          roi_start_h = c_round (fl D (bottom_rois (roi_n * 7 + 2) * spatial_scale_xy L));
          roi_start_l = c_round (fl D (bottom_rois (roi_n * 7 + 3) * spatial_scale_z L));
          roi_end_w = c_round (fl D (bottom_rois (roi_n * 7 + 4) * spatial_scale_xy L));
          roi_end_h = c_round (fl D (bottom_rois (roi_n * 7 + 5) * spatial_scale_xy L));
          roi_end_l = c_round (fl D (bottom_rois (roi_n * 7 + 6) * spatial_scale_z L));
          in_roi = (w \<ge> roi_start_w \<and> w \<le> roi_end_w \<and>
                    h \<ge> roi_start_h \<and> h \<le> roi_end_h \<and>
                    l \<ge> roi_start_l \<and> l \<le> roi_end_l)
      in
      if \<not> in_roi then gradient
      else
       let offset = (roi_n * channels L + c) * pooled_length L * pooled_height L
                      * pooled_width L;
           roi_width = max (i32 (i32 (roi_end_w - roi_start_w) + 1)) 1;
           roi_height = max (i32 (i32 (roi_end_h - roi_start_h) + 1)) 1;
           roi_length = max (i32 (i32 (roi_end_l - roi_start_l) + 1)) 1;
           bin_size_l = fl D (to_Dtype D roi_length / to_Dtype D (pooled_length L));
           bin_size_h = fl D (to_Dtype D roi_height / to_Dtype D (pooled_height L));
           bin_size_w = fl D (to_Dtype D roi_width / to_Dtype D (pooled_width L));
           plstart = c_floor (fl D (to_Dtype D (i32 (l - roi_start_l)) / bin_size_l));
           plend = c_ceil (fl D (to_Dtype D (i32 (i32 (l - roi_start_l) + 1)) / bin_size_l));
           phstart = c_floor (fl D (to_Dtype D (i32 (h - roi_start_h)) / bin_size_h));
           phend = c_ceil (fl D (to_Dtype D (i32 (i32 (h - roi_start_h) + 1)) / bin_size_h));
           pwstart = c_floor (fl D (to_Dtype D (i32 (w - roi_start_w)) / bin_size_w));
           pwend = c_ceil (fl D (to_Dtype D (i32 (i32 (w - roi_start_w) + 1)) / bin_size_w));
           plstart = min (max plstart 0) (pooled_length L);
           plend = min (max plend 0) (pooled_length L);
           phstart = min (max phstart 0) (pooled_height L);
           phend = min (max phend 0) (pooled_height L);
           pwstart = min (max pwstart 0) (pooled_width L);
           pwend = min (max pwend 0) (pooled_width L)
       in fold (\<lambda>pl. fold (\<lambda>ph. fold (\<lambda>pw. accumulate_bin L top_diff argmax_data offset
                                                    l h w pl ph pw)
                                       [pwstart..pwend - 1])
                            [phstart..phend - 1])
               [plstart..plend - 1] gradient)"

text \<open>Lines 113-184: the body of the kernel loop for one \<open>index\<close>; the result is the value
  written to \<^verbatim>\<open>bottom_diff[index]\<close>.\<close>

definition ROIPoolBackward_body ::
  "layer \<Rightarrow> (int \<Rightarrow> Dtype) \<Rightarrow> (int \<Rightarrow> int) \<Rightarrow> int \<Rightarrow> (int \<Rightarrow> Dtype) \<Rightarrow> int \<Rightarrow> Dtype" where
  "ROIPoolBackward_body L top_diff argmax_data num_rois bottom_rois index =
    (let w = index smod width L;
         h = (index sdiv width L) smod height L;
         l = (index sdiv width L sdiv height L) smod length_dim L;
         c = (index sdiv width L sdiv height L sdiv length_dim L) smod channels L;
         n = index sdiv width L sdiv height L sdiv length_dim L sdiv channels L;
         gradient = 0
     in fold (ROIPoolBackward_roi L top_diff argmax_data bottom_rois n c l h w)
             [0..num_rois - 1] gradient)"

text \<open>The input-gradient buffer, with the trace of the writes that units of work of the
  kernel have made to it, each as the pair of the address and the value stored, in the
  order of the writes.\<close>

record bwd_buf =
  bottom_diff :: "int \<Rightarrow> Dtype"
  unit_writes :: "(int \<times> Dtype) list"

text \<open>Line 184: the write of one unit of work.\<close>

definition ROIPoolBackward_unit ::
  "layer \<Rightarrow> (int \<Rightarrow> Dtype) \<Rightarrow> (int \<Rightarrow> int) \<Rightarrow> int \<Rightarrow> (int \<Rightarrow> Dtype) \<Rightarrow> int \<Rightarrow> bwd_buf \<Rightarrow> bwd_buf" where
  "ROIPoolBackward_unit L top_diff argmax_data num_rois bottom_rois index st =
     (let gradient = ROIPoolBackward_body L top_diff argmax_data num_rois bottom_rois index in
      st\<lparr>bottom_diff := (bottom_diff st)(index := gradient),
         unit_writes := unit_writes st @ [(index, gradient)]\<rparr>)"

definition ROIPoolBackward_sched ::
  "int list \<Rightarrow> layer \<Rightarrow> (int \<Rightarrow> Dtype) \<Rightarrow> (int \<Rightarrow> int) \<Rightarrow> int \<Rightarrow> (int \<Rightarrow> Dtype) \<Rightarrow> bwd_buf
     \<Rightarrow> bwd_buf" where
  "ROIPoolBackward_sched sched L top_diff argmax_data num_rois bottom_rois st =
     fold (ROIPoolBackward_unit L top_diff argmax_data num_rois bottom_rois) sched st"

definition ROIPoolBackward ::
  "int \<Rightarrow> layer \<Rightarrow> (int \<Rightarrow> Dtype) \<Rightarrow> (int \<Rightarrow> int) \<Rightarrow> int \<Rightarrow> (int \<Rightarrow> Dtype) \<Rightarrow> bwd_buf \<Rightarrow> bwd_buf" where
  "ROIPoolBackward nthreads L top_diff argmax_data num_rois bottom_rois st =
     ROIPoolBackward_sched [0..nthreads - 1] L top_diff argmax_data num_rois bottom_rois st"

text \<open>
  Modelled from the spec: \<^verbatim>\<open>caffe_gpu_set(N, alpha, Y)\<close> is a library routine outside the
  source file; it zero-initialises the input gradient buffer, that is, it stores \<open>alpha\<close>
  in the \<open>N\<close> elements of \<open>Y\<close>.
\<close>

definition caffe_gpu_set :: "int \<Rightarrow> Dtype \<Rightarrow> (int \<Rightarrow> Dtype) \<Rightarrow> (int \<Rightarrow> Dtype)" where
  "caffe_gpu_set N alpha Y = (\<lambda>i. if 0 \<le> i \<and> i < N then alpha else Y i)"

text \<open>
  Lines 189-205. Modelled from the spec: \<^verbatim>\<open>bottom[0]->count()\<close> is the number of elements
  of the feature volume, of shape (batch, channels, depth, height, width), and
  \<^verbatim>\<open>top[0]->num()\<close> is the number of regions. The argument \<open>propagate_down0\<close> is
  \<^verbatim>\<open>propagate_down[0]\<close>, \<open>num\<close> is the batch size.
\<close>

definition Backward_gpu ::
  "layer \<Rightarrow> bool \<Rightarrow> int \<Rightarrow> int \<Rightarrow> (int \<Rightarrow> Dtype) \<Rightarrow> (int \<Rightarrow> int) \<Rightarrow> (int \<Rightarrow> Dtype) \<Rightarrow> bwd_buf
     \<Rightarrow> bwd_buf" where
  "Backward_gpu L propagate_down0 num num_rois top_diff argmax_data bottom_rois st =
     (if \<not> propagate_down0 then st
      else
       let count = num * channels L * length_dim L * height L * width L;
           st = st\<lparr>bottom_diff := caffe_gpu_set count 0 (bottom_diff st)\<rparr>
       in ROIPoolBackward count L top_diff argmax_data num_rois bottom_rois st)"

section \<open>Names for the quantities the kernels compute\<close>

text \<open>
  The definitions of this section give names to the local variables of the two kernel
  bodies, so that properties can speak about them. The lemmas \<open>ROIPoolForward_body_eq\<close>
  and \<open>ROIPoolBackward_roi_eq\<close> below show that the kernel bodies compute exactly these.
\<close>

subsection \<open>Region records (lines 32-39 and 122-134)\<close>

definition roi_batch_ind_of :: "(int \<Rightarrow> Dtype) \<Rightarrow> int \<Rightarrow> int" where
  "roi_batch_ind_of bottom_rois n = c_int (bottom_rois (n * 7 + 0))"

definition roi_start_w_of :: "layer \<Rightarrow> (int \<Rightarrow> Dtype) \<Rightarrow> int \<Rightarrow> int" where
  "roi_start_w_of L bottom_rois n =
     c_round (fl (dtype L) (bottom_rois (n * 7 + 1) * spatial_scale_xy L))"

definition roi_start_h_of :: "layer \<Rightarrow> (int \<Rightarrow> Dtype) \<Rightarrow> int \<Rightarrow> int" where
  "roi_start_h_of L bottom_rois n =
     c_round (fl (dtype L) (bottom_rois (n * 7 + 2) * spatial_scale_xy L))"

definition roi_start_l_of :: "layer \<Rightarrow> (int \<Rightarrow> Dtype) \<Rightarrow> int \<Rightarrow> int" where
  "roi_start_l_of L bottom_rois n =
     c_round (fl (dtype L) (bottom_rois (n * 7 + 3) * spatial_scale_z L))"

definition roi_end_w_of :: "layer \<Rightarrow> (int \<Rightarrow> Dtype) \<Rightarrow> int \<Rightarrow> int" where
  "roi_end_w_of L bottom_rois n =
     c_round (fl (dtype L) (bottom_rois (n * 7 + 4) * spatial_scale_xy L))"

definition roi_end_h_of :: "layer \<Rightarrow> (int \<Rightarrow> Dtype) \<Rightarrow> int \<Rightarrow> int" where
  "roi_end_h_of L bottom_rois n =
     c_round (fl (dtype L) (bottom_rois (n * 7 + 5) * spatial_scale_xy L))"

definition roi_end_l_of :: "layer \<Rightarrow> (int \<Rightarrow> Dtype) \<Rightarrow> int \<Rightarrow> int" where
  "roi_end_l_of L bottom_rois n =
     c_round (fl (dtype L) (bottom_rois (n * 7 + 6) * spatial_scale_z L))"

text \<open>Lines 42-44 and 152-154.\<close>

definition roi_extent :: "int \<Rightarrow> int \<Rightarrow> int" where
  "roi_extent roi_start roi_end = max (i32 (i32 (roi_end - roi_start) + 1)) 1"

text \<open>Lines 45-47 and 156-158.\<close>

definition bin_size :: "precision \<Rightarrow> int \<Rightarrow> int \<Rightarrow> Dtype" where
  "bin_size D extent pooled = fl D (to_Dtype D extent / to_Dtype D pooled)"

subsection \<open>Forward: the box of one pooled bin (lines 26-30, 49-63, 69)\<close>

definition bin_start :: "precision \<Rightarrow> int \<Rightarrow> int \<Rightarrow> int \<Rightarrow> int \<Rightarrow> int \<Rightarrow> int" where
  "bin_start D roi_start extent pooled bound p =
     min (max (i32 (c_floor (fl D (to_Dtype D p * bin_size D extent pooled)) + roi_start)) 0)
         bound"

definition bin_end :: "precision \<Rightarrow> int \<Rightarrow> int \<Rightarrow> int \<Rightarrow> int \<Rightarrow> int \<Rightarrow> int" where
  "bin_end D roi_start extent pooled bound p =
     min (max (i32 (c_ceil (fl D (to_Dtype D (p + 1) * bin_size D extent pooled)) + roi_start)) 0)
         bound"

definition out_pw :: "layer \<Rightarrow> int \<Rightarrow> int" where
  "out_pw L index = index smod pooled_width L"

definition out_ph :: "layer \<Rightarrow> int \<Rightarrow> int" where
  "out_ph L index = (index sdiv pooled_width L) smod pooled_height L"

definition out_pl :: "layer \<Rightarrow> int \<Rightarrow> int" where
  "out_pl L index = (index sdiv pooled_width L sdiv pooled_height L) smod pooled_length L"

definition out_c :: "layer \<Rightarrow> int \<Rightarrow> int" where
  "out_c L index =
     (index sdiv pooled_width L sdiv pooled_height L sdiv pooled_length L) smod channels L"

definition out_n :: "layer \<Rightarrow> int \<Rightarrow> int" where
  "out_n L index =
     index sdiv pooled_width L sdiv pooled_height L sdiv pooled_length L sdiv channels L"

definition lstart_of :: "layer \<Rightarrow> (int \<Rightarrow> Dtype) \<Rightarrow> int \<Rightarrow> int" where
  "lstart_of L bottom_rois index =
     (let n = out_n L index; s = roi_start_l_of L bottom_rois n in
      bin_start (dtype L) s (roi_extent s (roi_end_l_of L bottom_rois n)) (pooled_length L)
        (length_dim L) (out_pl L index))"

definition lend_of :: "layer \<Rightarrow> (int \<Rightarrow> Dtype) \<Rightarrow> int \<Rightarrow> int" where
  "lend_of L bottom_rois index =
     (let n = out_n L index; s = roi_start_l_of L bottom_rois n in
      bin_end (dtype L) s (roi_extent s (roi_end_l_of L bottom_rois n)) (pooled_length L)
        (length_dim L) (out_pl L index))"

definition hstart_of :: "layer \<Rightarrow> (int \<Rightarrow> Dtype) \<Rightarrow> int \<Rightarrow> int" where
  "hstart_of L bottom_rois index =
     (let n = out_n L index; s = roi_start_h_of L bottom_rois n in
      bin_start (dtype L) s (roi_extent s (roi_end_h_of L bottom_rois n)) (pooled_height L)
        (height L) (out_ph L index))"

definition hend_of :: "layer \<Rightarrow> (int \<Rightarrow> Dtype) \<Rightarrow> int \<Rightarrow> int" where
  "hend_of L bottom_rois index =
     (let n = out_n L index; s = roi_start_h_of L bottom_rois n in
      bin_end (dtype L) s (roi_extent s (roi_end_h_of L bottom_rois n)) (pooled_height L)
        (height L) (out_ph L index))"

definition wstart_of :: "layer \<Rightarrow> (int \<Rightarrow> Dtype) \<Rightarrow> int \<Rightarrow> int" where
  "wstart_of L bottom_rois index =
     (let n = out_n L index; s = roi_start_w_of L bottom_rois n in
      bin_start (dtype L) s (roi_extent s (roi_end_w_of L bottom_rois n)) (pooled_width L)
        (width L) (out_pw L index))"

definition wend_of :: "layer \<Rightarrow> (int \<Rightarrow> Dtype) \<Rightarrow> int \<Rightarrow> int" where
  "wend_of L bottom_rois index =
     (let n = out_n L index; s = roi_start_w_of L bottom_rois n in
      bin_end (dtype L) s (roi_extent s (roi_end_w_of L bottom_rois n)) (pooled_width L)
        (width L) (out_pw L index))"

definition is_empty_of :: "layer \<Rightarrow> (int \<Rightarrow> Dtype) \<Rightarrow> int \<Rightarrow> bool" where
  "is_empty_of L bottom_rois index =
     (lend_of L bottom_rois index \<le> lstart_of L bottom_rois index \<or>
      hend_of L bottom_rois index \<le> hstart_of L bottom_rois index \<or>
      wend_of L bottom_rois index \<le> wstart_of L bottom_rois index)"

definition data_offset_of :: "layer \<Rightarrow> (int \<Rightarrow> Dtype) \<Rightarrow> int \<Rightarrow> int" where
  "data_offset_of L bottom_rois index =
     (roi_batch_ind_of bottom_rois (out_n L index) * channels L + out_c L index)
       * length_dim L * height L * width L"

subsection \<open>Backward: the input coordinate and its candidate bins\<close>

text \<open>Lines 113-117.\<close>

definition in_w :: "layer \<Rightarrow> int \<Rightarrow> int" where
  "in_w L index = index smod width L"

definition in_h :: "layer \<Rightarrow> int \<Rightarrow> int" where
  "in_h L index = (index sdiv width L) smod height L"

definition in_l :: "layer \<Rightarrow> int \<Rightarrow> int" where
  "in_l L index = (index sdiv width L sdiv height L) smod length_dim L"

definition in_c :: "layer \<Rightarrow> int \<Rightarrow> int" where
  "in_c L index = (index sdiv width L sdiv height L sdiv length_dim L) smod channels L"

definition in_n :: "layer \<Rightarrow> int \<Rightarrow> int" where
  "in_n L index = index sdiv width L sdiv height L sdiv length_dim L sdiv channels L"

text \<open>Lines 137-139.\<close>

definition in_roi :: "layer \<Rightarrow> (int \<Rightarrow> Dtype) \<Rightarrow> int \<Rightarrow> int \<Rightarrow> int \<Rightarrow> int \<Rightarrow> bool" where
  "in_roi L bottom_rois roi_n l h w =
     (w \<ge> roi_start_w_of L bottom_rois roi_n \<and> w \<le> roi_end_w_of L bottom_rois roi_n \<and>
      h \<ge> roi_start_h_of L bottom_rois roi_n \<and> h \<le> roi_end_h_of L bottom_rois roi_n \<and>
      l \<ge> roi_start_l_of L bottom_rois roi_n \<and> l \<le> roi_end_l_of L bottom_rois roi_n)"

text \<open>Line 144.\<close>

definition top_offset :: "layer \<Rightarrow> int \<Rightarrow> int \<Rightarrow> int" where
  "top_offset L roi_n c =
     (roi_n * channels L + c) * pooled_length L * pooled_height L * pooled_width L"

text \<open>Lines 160-172, for one axis.\<close>

definition pool_start :: "precision \<Rightarrow> int \<Rightarrow> int \<Rightarrow> int \<Rightarrow> int \<Rightarrow> int" where
  "pool_start D roi_start extent pooled x =
     min (max (c_floor (fl D (to_Dtype D (i32 (x - roi_start)) / bin_size D extent pooled))) 0)
         pooled"

definition pool_end :: "precision \<Rightarrow> int \<Rightarrow> int \<Rightarrow> int \<Rightarrow> int \<Rightarrow> int" where
  "pool_end D roi_start extent pooled x =
     min (max (c_ceil (fl D (to_Dtype D (i32 (i32 (x - roi_start) + 1))
                               / bin_size D extent pooled))) 0)
         pooled"

definition plstart_of :: "layer \<Rightarrow> (int \<Rightarrow> Dtype) \<Rightarrow> int \<Rightarrow> int \<Rightarrow> int" where
  "plstart_of L bottom_rois roi_n l =
     (let s = roi_start_l_of L bottom_rois roi_n in
      pool_start (dtype L) s (roi_extent s (roi_end_l_of L bottom_rois roi_n)) (pooled_length L) l)"

definition plend_of :: "layer \<Rightarrow> (int \<Rightarrow> Dtype) \<Rightarrow> int \<Rightarrow> int \<Rightarrow> int" where
  "plend_of L bottom_rois roi_n l =
     (let s = roi_start_l_of L bottom_rois roi_n in
      pool_end (dtype L) s (roi_extent s (roi_end_l_of L bottom_rois roi_n)) (pooled_length L) l)"

definition phstart_of :: "layer \<Rightarrow> (int \<Rightarrow> Dtype) \<Rightarrow> int \<Rightarrow> int \<Rightarrow> int" where
  "phstart_of L bottom_rois roi_n h =
     (let s = roi_start_h_of L bottom_rois roi_n in
      pool_start (dtype L) s (roi_extent s (roi_end_h_of L bottom_rois roi_n)) (pooled_height L) h)"

definition phend_of :: "layer \<Rightarrow> (int \<Rightarrow> Dtype) \<Rightarrow> int \<Rightarrow> int \<Rightarrow> int" where
  "phend_of L bottom_rois roi_n h =
     (let s = roi_start_h_of L bottom_rois roi_n in
      pool_end (dtype L) s (roi_extent s (roi_end_h_of L bottom_rois roi_n)) (pooled_height L) h)"

definition pwstart_of :: "layer \<Rightarrow> (int \<Rightarrow> Dtype) \<Rightarrow> int \<Rightarrow> int \<Rightarrow> int" where
  "pwstart_of L bottom_rois roi_n w =
     (let s = roi_start_w_of L bottom_rois roi_n in
      pool_start (dtype L) s (roi_extent s (roi_end_w_of L bottom_rois roi_n)) (pooled_width L) w)"

definition pwend_of :: "layer \<Rightarrow> (int \<Rightarrow> Dtype) \<Rightarrow> int \<Rightarrow> int \<Rightarrow> int" where
  "pwend_of L bottom_rois roi_n w =
     (let s = roi_start_w_of L bottom_rois roi_n in
      pool_end (dtype L) s (roi_extent s (roi_end_w_of L bottom_rois roi_n)) (pooled_width L) w)"

section \<open>Regions outside the volume\<close>

text \<open>A region, with its extent forced to at least 1, misses the volume on one axis when it
  starts at or after the bound or ends at or before 0.\<close>

definition roi_outside_axis :: "int \<Rightarrow> int \<Rightarrow> int \<Rightarrow> bool" where
  "roi_outside_axis roi_start extent bound = (bound \<le> roi_start \<or> roi_start + extent \<le> 0)"

definition roi_outside :: "layer \<Rightarrow> (int \<Rightarrow> Dtype) \<Rightarrow> int \<Rightarrow> bool" where
  "roi_outside L bottom_rois n =
     (roi_outside_axis (roi_start_l_of L bottom_rois n)
        (roi_extent (roi_start_l_of L bottom_rois n) (roi_end_l_of L bottom_rois n))
        (length_dim L) \<or>
      roi_outside_axis (roi_start_h_of L bottom_rois n)
        (roi_extent (roi_start_h_of L bottom_rois n) (roi_end_h_of L bottom_rois n))
        (height L) \<or>
      roi_outside_axis (roi_start_w_of L bottom_rois n)
        (roi_extent (roi_start_w_of L bottom_rois n) (roi_end_w_of L bottom_rois n))
        (width L))"

section \<open>Cells of a bin and the order of the scan\<close>

text \<open>Line 73: the flat encoding of an input coordinate.\<close>

definition bottom_index :: "layer \<Rightarrow> int \<Rightarrow> int \<Rightarrow> int \<Rightarrow> int" where
  "bottom_index L l h w = l * height L * width L + h * width L + w"

text \<open>The coordinate \<open>(l, h, w)\<close> lies in the clamped box of the bin of output \<open>index\<close>.\<close>

definition in_bin :: "layer \<Rightarrow> (int \<Rightarrow> Dtype) \<Rightarrow> int \<Rightarrow> int \<Rightarrow> int \<Rightarrow> int \<Rightarrow> bool" where
  "in_bin L bottom_rois index l h w =
     (lstart_of L bottom_rois index \<le> l \<and> l < lend_of L bottom_rois index \<and>
      hstart_of L bottom_rois index \<le> h \<and> h < hend_of L bottom_rois index \<and>
      wstart_of L bottom_rois index \<le> w \<and> w < wend_of L bottom_rois index)"

text \<open>The cells of a box in the order in which the loops of lines 70-72 visit them.\<close>

definition box_cells :: "int \<Rightarrow> int \<Rightarrow> int \<Rightarrow> int \<Rightarrow> int \<Rightarrow> int \<Rightarrow> (int \<times> int \<times> int) list" where
  "box_cells lstart lend hstart hend wstart wend =
     concat (map (\<lambda>l. concat (map (\<lambda>h. map (\<lambda>w. (l, h, w)) [wstart..wend - 1])
                                    [hstart..hend - 1]))
                 [lstart..lend - 1])"

text \<open>Depth outermost, then height, then width: \<open>(l', h', w')\<close> is visited before
  \<open>(l, h, w)\<close>.\<close>

definition scan_before :: "int \<times> int \<times> int \<Rightarrow> int \<times> int \<times> int \<Rightarrow> bool" where
  "scan_before a b =
     (fst a < fst b \<or>
      (fst a = fst b \<and> (fst (snd a) < fst (snd b) \<or>
                          (fst (snd a) = fst (snd b) \<and> snd (snd a) < snd (snd b)))))"

section \<open>Backward: the contribution of a bin and of a region\<close>

text \<open>Line 177: the selection index stored for bin \<open>(pl, ph, pw)\<close> of region \<open>roi_n\<close>, channel
  \<open>c\<close>, is the flat encoding of \<open>(l, h, w)\<close>.\<close>

definition bin_hit ::
  "layer \<Rightarrow> (int \<Rightarrow> int) \<Rightarrow> int \<Rightarrow> int \<Rightarrow> int \<Rightarrow> int \<Rightarrow> int \<Rightarrow> int \<Rightarrow> int \<Rightarrow> int \<Rightarrow> bool" where
  "bin_hit L argmax_data roi_n c l h w pl ph pw =
     (argmax_data (top_offset L roi_n c
                    + (pl * pooled_height L * pooled_width L + ph * pooled_width L + pw))
        = l * height L * width L + h * width L + w)"

text \<open>The output gradient of a candidate bin if the bin selected \<open>(l, h, w)\<close>, else 0.\<close>

definition bin_grad ::
  "layer \<Rightarrow> (int \<Rightarrow> Dtype) \<Rightarrow> (int \<Rightarrow> int) \<Rightarrow> int \<Rightarrow> int \<Rightarrow> int \<Rightarrow> int \<Rightarrow> int \<Rightarrow> int \<Rightarrow> int \<Rightarrow> int
     \<Rightarrow> Dtype" where
  "bin_grad L top_diff argmax_data roi_n c l h w pl ph pw =
     (if bin_hit L argmax_data roi_n c l h w pl ph pw
      then top_diff (top_offset L roi_n c
                      + (pl * pooled_height L * pooled_width L + ph * pooled_width L + pw))
      else 0)"

text \<open>The region \<open>roi_n\<close> passes both tests of the loop body (lines 125 and 140) for the input
  element \<open>(n, c, l, h, w)\<close>.\<close>

definition roi_covers :: "layer \<Rightarrow> (int \<Rightarrow> Dtype) \<Rightarrow> int \<Rightarrow> int \<Rightarrow> int \<Rightarrow> int \<Rightarrow> int \<Rightarrow> bool" where
  "roi_covers L bottom_rois n l h w roi_n =
     (n = roi_batch_ind_of bottom_rois roi_n \<and> in_roi L bottom_rois roi_n l h w)"

text \<open>The exact sum of the output gradients of the candidate bins of region \<open>roi_n\<close> that
  selected the input element \<open>(n, c, l, h, w)\<close>.\<close>

definition roi_grad ::
  "layer \<Rightarrow> (int \<Rightarrow> Dtype) \<Rightarrow> (int \<Rightarrow> int) \<Rightarrow> (int \<Rightarrow> Dtype) \<Rightarrow> int \<Rightarrow> int \<Rightarrow> int \<Rightarrow> int \<Rightarrow> int
     \<Rightarrow> int \<Rightarrow> real" where
  "roi_grad L top_diff argmax_data bottom_rois n c l h w roi_n =
     (if roi_covers L bottom_rois n l h w roi_n
      then (\<Sum>pl \<leftarrow> [plstart_of L bottom_rois roi_n l..plend_of L bottom_rois roi_n l - 1].
            \<Sum>ph \<leftarrow> [phstart_of L bottom_rois roi_n h..phend_of L bottom_rois roi_n h - 1].
            \<Sum>pw \<leftarrow> [pwstart_of L bottom_rois roi_n w..pwend_of L bottom_rois roi_n w - 1].
              bin_grad L top_diff argmax_data roi_n c l h w pl ph pw)
      else 0)"

text \<open>The input element \<open>(n, c, l, h, w)\<close> is matched by region \<open>roi_n\<close> and by one of its
  candidate bins.\<close>

definition roi_matches ::
  "layer \<Rightarrow> (int \<Rightarrow> int) \<Rightarrow> (int \<Rightarrow> Dtype) \<Rightarrow> int \<Rightarrow> int \<Rightarrow> int \<Rightarrow> int \<Rightarrow> int \<Rightarrow> int \<Rightarrow> bool" where
  "roi_matches L argmax_data bottom_rois n c l h w roi_n =
     (roi_covers L bottom_rois n l h w roi_n \<and>
      (\<exists>pl \<in> set [plstart_of L bottom_rois roi_n l..plend_of L bottom_rois roi_n l - 1].
       \<exists>ph \<in> set [phstart_of L bottom_rois roi_n h..phend_of L bottom_rois roi_n h - 1].
       \<exists>pw \<in> set [pwstart_of L bottom_rois roi_n w..pwend_of L bottom_rois roi_n w - 1].
         bin_hit L argmax_data roi_n c l h w pl ph pw))"

text \<open>The input element at \<open>index\<close> is matched by some region and bin.\<close>

definition matched :: "layer \<Rightarrow> (int \<Rightarrow> int) \<Rightarrow> int \<Rightarrow> (int \<Rightarrow> Dtype) \<Rightarrow> int \<Rightarrow> bool" where
  "matched L argmax_data num_rois bottom_rois index =
     (\<exists>roi_n \<in> set [0..num_rois - 1].
        roi_matches L argmax_data bottom_rois (in_n L index) (in_c L index) (in_l L index)
          (in_h L index) (in_w L index) roi_n)"

section \<open>A single region inside the volume\<close>

text \<open>All extents of the volume and of the pooled grid are positive.\<close>

definition shape_ok :: "layer \<Rightarrow> bool" where
  "shape_ok L =
     (0 < channels L \<and> 0 < length_dim L \<and> 0 < height L \<and> 0 < width L \<and>
      0 < pooled_length L \<and> 0 < pooled_height L \<and> 0 < pooled_width L)"

text \<open>No extent of the volume exceeds 4096.\<close>

definition small_volume :: "layer \<Rightarrow> bool" where
  "small_volume L = (length_dim L \<le> 4096 \<and> height L \<le> 4096 \<and> width L \<le> 4096)"

text \<open>The scaled, rounded boundaries of region \<open>n\<close> are not inverted and lie within the
  volume, on every axis.\<close>

definition roi_inside :: "layer \<Rightarrow> (int \<Rightarrow> Dtype) \<Rightarrow> int \<Rightarrow> bool" where
  "roi_inside L bottom_rois n =
     (0 \<le> roi_start_l_of L bottom_rois n \<and>
      roi_start_l_of L bottom_rois n \<le> roi_end_l_of L bottom_rois n \<and>
      roi_end_l_of L bottom_rois n < length_dim L \<and>
      0 \<le> roi_start_h_of L bottom_rois n \<and>
      roi_start_h_of L bottom_rois n \<le> roi_end_h_of L bottom_rois n \<and>
      roi_end_h_of L bottom_rois n < height L \<and>
      0 \<le> roi_start_w_of L bottom_rois n \<and>
      roi_start_w_of L bottom_rois n \<le> roi_end_w_of L bottom_rois n \<and>
      roi_end_w_of L bottom_rois n < width L)"

text \<open>On every axis the pooled extent divides the extent of region \<open>n\<close>, so that the bin
  size is a whole number.\<close>

definition roi_divisible :: "layer \<Rightarrow> (int \<Rightarrow> Dtype) \<Rightarrow> int \<Rightarrow> bool" where
  "roi_divisible L bottom_rois n =
     (pooled_length L dvd roi_extent (roi_start_l_of L bottom_rois n) (roi_end_l_of L bottom_rois n) \<and>
      pooled_height L dvd roi_extent (roi_start_h_of L bottom_rois n) (roi_end_h_of L bottom_rois n) \<and>
      pooled_width L dvd roi_extent (roi_start_w_of L bottom_rois n) (roi_end_w_of L bottom_rois n))"

text \<open>The address, in the input gradient, of the element that the bin \<open>(pl, ph, pw)\<close> of
  channel \<open>c\<close> of region 0 selected: the offset of batch slot \<open>b\<close> and channel \<open>c\<close> plus the
  stored selection index.\<close>

definition source_index :: "layer \<Rightarrow> int \<Rightarrow> (int \<Rightarrow> int) \<Rightarrow> int \<Rightarrow> int \<Rightarrow> int \<Rightarrow> int \<Rightarrow> int" where
  "source_index L b argmax_data c pl ph pw =
     (b * channels L + c) * length_dim L * height L * width L
       + argmax_data (top_offset L 0 c
                       + (pl * pooled_height L * pooled_width L + ph * pooled_width L + pw))"

text \<open>The support of region 0 in the input gradient of a batch of \<open>num\<close> volumes: the
  addresses whose batch slot is the region's and whose coordinate passes the containment
  test of Backward.\<close>

definition roi_support :: "layer \<Rightarrow> (int \<Rightarrow> Dtype) \<Rightarrow> int \<Rightarrow> int set" where
  "roi_support L bottom_rois num =
     {i. 0 \<le> i \<and> i < num * channels L * length_dim L * height L * width L \<and>
         roi_covers L bottom_rois (in_n L i) (in_l L i) (in_h L i) (in_w L i) 0}"

section \<open>Concrete inputs\<close>

text \<open>A region list is a buffer of 7 values per region: the batch index at offset 0, the
  starts on the width, height and depth axes at offsets 1, 2, 3 and the ends on the same
  axes at offsets 4, 5, 6.\<close>

text \<open>A volume of floats of shape (1,1,1,1,2) pooled to a single bin, with unit scale
  factors.\<close>

definition L_w2 :: layer where
  "L_w2 = \<lparr>dtype = Single, spatial_scale_xy = 1, spatial_scale_z = 1, channels = 1,
           length_dim = 1, height = 1, width = 2,
           pooled_length = 1, pooled_height = 1, pooled_width = 1\<rparr>"

text \<open>One region \<open>(1, 0,0,0, 1,0,0)\<close>: batch slot 1, columns 0 to 1.\<close>

definition rois_batch1 :: "int \<Rightarrow> Dtype" where
  "rois_batch1 = (\<lambda>i. if i = 0 then 1 else if i = 4 then 1 else 0)"

text \<open>One region \<open>(0, 0,0,0, 1,0,0)\<close>: the whole volume of shape (1,1,1,1,2).\<close>

definition rois_full :: "int \<Rightarrow> Dtype" where
  "rois_full = (\<lambda>i. if i = 4 then 1 else 0)"

text \<open>Some initial contents of the output buffers.\<close>

definition bufs0 :: fwd_bufs where
  "bufs0 = \<lparr>top0_data = (\<lambda>i. 0), max_idx_data = (\<lambda>i. 0)\<rparr>"

text \<open>A volume of doubles of shape (1,1,4,4,4) pooled to (2,2,2), with unit scale factors,
  and one region \<open>(0, 0,0,0, 3,3,3)\<close> spanning the whole volume.\<close>

definition L_444 :: layer where
  "L_444 = \<lparr>dtype = Double, spatial_scale_xy = 1, spatial_scale_z = 1, channels = 1,
            length_dim = 4, height = 4, width = 4,
            pooled_length = 2, pooled_height = 2, pooled_width = 2\<rparr>"

definition rois_444 :: "int \<Rightarrow> Dtype" where
  "rois_444 = (\<lambda>i. if 4 \<le> i \<and> i \<le> 6 then 3 else 0)"

text \<open>A feature volume of doubles all of whose elements are below \<open>- FLT_MAX\<close>; the element
  at address \<open>i\<close> is \<open>(i - 2^49) * 2^80\<close>.\<close>

definition data_low :: "int \<Rightarrow> Dtype" where
  "data_low = (\<lambda>i. real_of_int i * 2 ^ 80 - 2 ^ 129)"

text \<open>Some initial contents of the gradient buffer.\<close>

definition bwd0 :: bwd_buf where
  "bwd0 = \<lparr>bottom_diff = (\<lambda>i. 9), unit_writes = []\<rparr>"

text \<open>One region \<open>(0, 1,0,0, 0,0,0)\<close>: inverted on the width axis (start 1, end 0), inside the
  volume of shape (1,1,1,1,2).\<close>

definition rois_inverted :: "int \<Rightarrow> Dtype" where
  "rois_inverted = (\<lambda>i. if i = 1 then 1 else 0)"

text \<open>A volume of floats of shape (1,1,1,1,2) pooled to two bins along the width, with unit
  scale factors, and one region \<open>(0, 0,0,0, 3,0,0)\<close> that starts inside the volume and ends
  past it.\<close>

definition L_w2p2 :: layer where
  "L_w2p2 = \<lparr>dtype = Single, spatial_scale_xy = 1, spatial_scale_z = 1, channels = 1,
             length_dim = 1, height = 1, width = 2,
             pooled_length = 1, pooled_height = 1, pooled_width = 2\<rparr>"

definition rois_wide :: "int \<Rightarrow> Dtype" where
  "rois_wide = (\<lambda>i. if i = 4 then 3 else 0)"

text \<open>A volume of floats of shape (1,1,1,1,2) pooled to seven bins along the width, with
  unit scale factors, and one region \<open>(0, -57,0,0, -1,0,0)\<close>, whose columns -57 to -1 all lie
  below the volume.\<close>

definition L_w2p7 :: layer where
  "L_w2p7 = \<lparr>dtype = Single, spatial_scale_xy = 1, spatial_scale_z = 1, channels = 1,
             length_dim = 1, height = 1, width = 2,
             pooled_length = 1, pooled_height = 1, pooled_width = 7\<rparr>"

definition rois_below :: "int \<Rightarrow> Dtype" where
  "rois_below = (\<lambda>i. if i = 1 then - 57 else if i = 4 then - 1 else 0)"

text \<open>A volume of floats of shape (1,1,1,1,58) pooled to seven bins along the width, with
  unit scale factors, and one region \<open>(0, 0,0,0, 56,0,0)\<close>: columns 0 to 56, inside the
  volume.\<close>

definition L_w58p7 :: layer where
  "L_w58p7 = \<lparr>dtype = Single, spatial_scale_xy = 1, spatial_scale_z = 1, channels = 1,
              length_dim = 1, height = 1, width = 58,
              pooled_length = 1, pooled_height = 1, pooled_width = 7\<rparr>"

definition rois_056 :: "int \<Rightarrow> Dtype" where
  "rois_056 = (\<lambda>i. if i = 4 then 56 else 0)"

text \<open>A volume of floats of shape (1,1,1,1,4) pooled to 28 bins along the width, with unit
  scale factors, one region \<open>(0, 0,0,0, 3,0,0)\<close> spanning the whole volume, and an output
  gradient that is 1 at bin 20 and 0 elsewhere.\<close>

definition L_w4p28 :: layer where
  "L_w4p28 = \<lparr>dtype = Single, spatial_scale_xy = 1, spatial_scale_z = 1, channels = 1,
              length_dim = 1, height = 1, width = 4,
              pooled_length = 1, pooled_height = 1, pooled_width = 28\<rparr>"

definition rois_03 :: "int \<Rightarrow> Dtype" where
  "rois_03 = (\<lambda>i. if i = 4 then 3 else 0)"

definition top_diff_20 :: "int \<Rightarrow> Dtype" where
  "top_diff_20 = (\<lambda>i. if i = 20 then 1 else 0)"

section \<open>Rounding\<close>

lemma round_even_of_int [simp]: "round_even (real_of_int n) = n"
  by (simp add: round_even_def)

lemma round_even_bounds:
  "real_of_int (round_even x) \<le> x + 1 / 2" "x - 1 / 2 \<le> real_of_int (round_even x)"
  unfolding round_even_def Let_def by (auto; linarith)+

lemma round_even_mono:
  assumes "x \<le> y"
  shows "round_even x \<le> round_even y"
proof (cases "\<lfloor>x\<rfloor> = \<lfloor>y\<rfloor>")
  case True
  then show ?thesis
    using assms unfolding round_even_def Let_def by auto
next
  case False
  then have "\<lfloor>x\<rfloor> < \<lfloor>y\<rfloor>" using assms floor_mono [OF assms] by linarith
  then have "\<lfloor>x\<rfloor> + 1 \<le> \<lfloor>y\<rfloor>" by simp
  moreover have "round_even x \<le> \<lfloor>x\<rfloor> + 1" unfolding round_even_def Let_def by auto
  moreover have "\<lfloor>y\<rfloor> \<le> round_even y" unfolding round_even_def Let_def by auto
  ultimately show ?thesis by linarith
qed

lemma powr_powi: "(2::real) powr real_of_int k = 2 powi k"
  by (simp add: powr_real_of_int power_int_def power_one_over [symmetric] inverse_eq_divide)

lemma expo_iff:
  assumes "x \<noteq> 0"
  shows "expo x = e \<longleftrightarrow> 2 powi e \<le> \<bar>x\<bar> \<and> \<bar>x\<bar> < 2 powi (e + 1)"
proof -
  have pos: "0 < \<bar>x\<bar>" using assms by simp
  have "real_of_int e + 1 = real_of_int (e + 1)" by simp
  then show ?thesis
    using floor_log_eq_powr_iff [OF pos, of 2 e]
    unfolding expo_def by (simp only: powr_powi)
qed

lemma expo_bounds:
  assumes "x \<noteq> 0"
  shows "2 powi expo x \<le> \<bar>x\<bar>" "\<bar>x\<bar> < 2 powi (expo x + 1)"
  using expo_iff [OF assms, of "expo x"] by simp_all

lemma expo_unique:
  assumes "2 powi e \<le> \<bar>x\<bar>" "\<bar>x\<bar> < 2 powi (e + 1)"
  shows "expo x = e"
proof -
  have "0 < (2::real) powi e" by (rule zero_less_power_int) simp
  then have "0 < \<bar>x\<bar>" using assms(1) by (rule less_le_trans)
  then have "x \<noteq> 0" by simp
  then show ?thesis using expo_iff [of x e] assms by simp
qed

lemma pow2_pos [simp]: "0 < (2::real) powi k"
  by (rule zero_less_power_int) simp

lemma pow2_le: "a \<le> b \<Longrightarrow> 2 powi a \<le> (2::real) powi b"
  by (rule power_int_increasing) simp_all

lemma pow2_less_D:
  assumes "2 powi a < (2::real) powi b"
  shows "a < b"
proof (rule ccontr)
  assume "\<not> a < b"
  then have "2 powi b \<le> (2::real) powi a" by (intro pow2_le) simp
  with assms show False by simp
qed

lemma round_to_eval:
  assumes "2 powi e \<le> \<bar>x\<bar>" "\<bar>x\<bar> < 2 powi (e + 1)"
  shows "round_to p x =
           sgn x * (real_of_int (round_even (\<bar>x\<bar> / 2 powi (e - int p + 1))) * 2 powi (e - int p + 1))"
proof -
  have "0 < \<bar>x\<bar>" using pow2_pos assms(1) by (rule less_le_trans)
  then have "x \<noteq> 0" by simp
  then show ?thesis
    by (simp add: round_to_def expo_unique [OF assms] Let_def)
qed

text \<open>Numbers with a significand of at most p bits are not changed.\<close>

lemma round_to_exact:
  assumes "\<bar>m\<bar> < 2 ^ p"
  shows "round_to p (real_of_int m * 2 powi k) = real_of_int m * 2 powi k"
proof (cases "m = 0")
  case True
  then show ?thesis by (simp add: round_to_def)
next
  case False
  define x where "x = real_of_int m * 2 powi k"
  have x0: "x \<noteq> 0" using False by (simp add: x_def)
  define e where "e = expo x"
  have absx: "\<bar>x\<bar> = real_of_int \<bar>m\<bar> * 2 powi k"
    by (simp add: x_def abs_mult)
  have "2 powi e \<le> \<bar>x\<bar>" using expo_bounds(1) [OF x0] by (simp add: e_def)
  also have "\<bar>x\<bar> < 2 ^ p * 2 powi k"
    unfolding absx using assms
    by (intro mult_strict_right_mono) (simp_all flip: of_int_less_iff [where 'a = real])
  also have "\<dots> = 2 powi (int p + k)"
    by (simp add: power_int_add)
  finally have "e < int p + k"
    by (rule pow2_less_D)
  then obtain d where d: "k - (e - int p + 1) = int d"
    by (metis add_diff_cancel_left' diff_diff_eq2 diff_ge_0_iff_ge nonneg_int_cases
        zle_add1_eq_le)
  have "\<bar>x\<bar> / 2 powi (e - int p + 1) = real_of_int \<bar>m\<bar> * 2 powi (k - (e - int p + 1))"
    unfolding absx by (simp add: power_int_diff)
  also have "\<dots> = real_of_int (\<bar>m\<bar> * 2 ^ d)"
    unfolding d by simp
  finally have q: "\<bar>x\<bar> / 2 powi (e - int p + 1) = real_of_int (\<bar>m\<bar> * 2 ^ d)" .
  have "round_to p x = sgn x * (real_of_int (\<bar>m\<bar> * 2 ^ d) * 2 powi (e - int p + 1))"
    using x0 unfolding round_to_def Let_def e_def [symmetric] q
    by (simp only: round_even_of_int if_False)
  also have "real_of_int (\<bar>m\<bar> * 2 ^ d) * 2 powi (e - int p + 1) = \<bar>x\<bar>"
    using q by (simp add: field_simps)
  also have "sgn x * \<bar>x\<bar> = x" by (simp add: sgn_mult_abs)
  finally show ?thesis by (simp add: x_def)
qed


lemma round_to_pos_eq:
  assumes "0 < x"
  shows "round_to p x =
           real_of_int (round_even (x / 2 powi (expo x - int p + 1))) * 2 powi (expo x - int p + 1)"
  using assms by (simp add: round_to_def Let_def)

lemma scaled_bounds:
  assumes "0 < x" "0 < p"
  shows "2 ^ (p - 1) \<le> x / 2 powi (expo x - int p + 1)" "x / 2 powi (expo x - int p + 1) < 2 ^ p"
proof -
  have x0: "x \<noteq> 0" using assms by simp
  have ax: "\<bar>x\<bar> = x" using assms by simp
  note b = expo_bounds [OF x0, unfolded ax]
  have "2 powi (expo x) / 2 powi (expo x - int p + 1) = (2::real) powi (int p - 1)"
    by (simp add: power_int_diff [symmetric])
  also have "\<dots> = 2 ^ (p - 1)"
    using assms(2) by (simp add: power_int_def nat_diff_distrib')
  finally have lo: "2 powi (expo x) / 2 powi (expo x - int p + 1) = (2::real) ^ (p - 1)" .
  have "2 powi (expo x + 1) / 2 powi (expo x - int p + 1) = (2::real) powi (int p)"
    by (simp add: power_int_diff [symmetric])
  then have hi: "2 powi (expo x + 1) / 2 powi (expo x - int p + 1) = (2::real) ^ p" by simp
  show "2 ^ (p - 1) \<le> x / 2 powi (expo x - int p + 1)"
    unfolding lo [symmetric] using b(1) by (intro divide_right_mono) simp_all
  show "x / 2 powi (expo x - int p + 1) < 2 ^ p"
    unfolding hi [symmetric] using b(2) by (intro divide_strict_right_mono) simp_all
qed

lemma round_to_nonneg:
  assumes "0 \<le> x"
  shows "0 \<le> round_to p x"
proof (cases "x = 0")
  case True
  then show ?thesis by (simp add: round_to_def)
next
  case False
  then have x: "0 < x" using assms by simp
  have "0 \<le> x / 2 powi (expo x - int p + 1)" using x by simp
  then have "round_even 0 \<le> round_even (x / 2 powi (expo x - int p + 1))"
    by (rule round_even_mono)
  then have "0 \<le> round_even (x / 2 powi (expo x - int p + 1))"
    using round_even_of_int [of 0] by simp
  then show ?thesis
    unfolding round_to_pos_eq [OF x] by simp
qed

lemma power_int_add_2: "(2::real) powi (a + b) = 2 powi a * 2 powi b"
  by (rule power_int_add) simp

lemma pow2_nat: "(2::real) powi (int n) = 2 ^ n"
  by (rule power_int_of_nat)

lemma round_to_mono:
  assumes "0 < p" "0 \<le> x" "x \<le> y"
  shows "round_to p x \<le> round_to p y"
proof (cases "x = 0")
  case True
  then show ?thesis using round_to_nonneg [of y p] assms by (simp add: round_to_def)
next
  case False
  then have x: "0 < x" using assms by simp
  then have y: "0 < y" using assms by simp
  define ux where "ux = (2::real) powi (expo x - int p + 1)"
  define uy where "uy = (2::real) powi (expo y - int p + 1)"
  have ux: "0 < ux" and uy: "0 < uy" by (simp_all add: ux_def uy_def)
  have fx: "round_to p x = real_of_int (round_even (x / ux)) * ux"
    unfolding ux_def by (rule round_to_pos_eq [OF x])
  have fy: "round_to p y = real_of_int (round_even (y / uy)) * uy"
    unfolding uy_def by (rule round_to_pos_eq [OF y])
  have "2 powi (expo x) \<le> x" using expo_bounds(1) [of x] x by simp
  also have "x \<le> y" by fact
  also have "y < 2 powi (expo y + 1)" using expo_bounds(2) [of y] y by simp
  finally have "expo x < expo y + 1" by (rule pow2_less_D)
  then consider "expo x = expo y" | "expo x + 1 \<le> expo y" by linarith
  then show ?thesis
  proof cases
    case 1
    then have u: "uy = ux" by (simp add: ux_def uy_def)
    have "x / ux \<le> y / ux" using assms(3) ux by (simp add: divide_right_mono)
    then have "round_even (x / ux) \<le> round_even (y / ux)" by (rule round_even_mono)
    then have "real_of_int (round_even (x / ux)) \<le> real_of_int (round_even (y / ux))"
      by (simp only: of_int_le_iff)
    then show ?thesis unfolding fx fy u using ux by (rule mult_right_mono [OF _ less_imp_le])
  next
    case 2
    have "x / ux \<le> real_of_int (2 ^ p)"
      using scaled_bounds(2) [OF x assms(1)] unfolding ux_def [symmetric] by simp
    then have "round_even (x / ux) \<le> round_even (real_of_int (2 ^ p))"
      by (rule round_even_mono)
    then have "round_even (x / ux) \<le> 2 ^ p"
      by (simp only: round_even_of_int)
    then have "real_of_int (round_even (x / ux)) \<le> real_of_int (2 ^ p)"
      by (simp only: of_int_le_iff)
    then have "real_of_int (round_even (x / ux)) \<le> 2 ^ p" by simp
    then have "round_to p x \<le> 2 ^ p * ux"
      unfolding fx using ux by (rule mult_right_mono [OF _ less_imp_le])
    also have "2 ^ p * ux = 2 powi (expo x + 1)"
    proof -
      have e: "int p + (expo x - int p + 1) = expo x + 1" by simp
      show ?thesis
        using power_int_add_2 [of "int p" "expo x - int p + 1"]
        unfolding e ux_def pow2_nat by simp
    qed
    also have "\<dots> \<le> 2 powi (expo y)" using 2 by (rule pow2_le)
    also have "\<dots> = 2 ^ (p - 1) * uy"
    proof -
      have e: "int (p - 1) + (expo y - int p + 1) = expo y" using assms(1) by simp
      show ?thesis
        using power_int_add_2 [of "int (p - 1)" "expo y - int p + 1"]
        unfolding e uy_def pow2_nat by simp
    qed
    also have "\<dots> \<le> real_of_int (round_even (y / uy)) * uy"
    proof -
      have "real_of_int (2 ^ (p - 1)) \<le> y / uy"
        using scaled_bounds(1) [OF y assms(1)] unfolding uy_def [symmetric] by simp
      then have "round_even (real_of_int (2 ^ (p - 1))) \<le> round_even (y / uy)"
        by (rule round_even_mono)
      then have "2 ^ (p - 1) \<le> round_even (y / uy)"
        by (simp only: round_even_of_int)
      then have "real_of_int (2 ^ (p - 1)) \<le> real_of_int (round_even (y / uy))"
        by (simp only: of_int_le_iff)
      then have "2 ^ (p - 1) \<le> real_of_int (round_even (y / uy))" by simp
      then show ?thesis using uy by (rule mult_right_mono [OF _ less_imp_le])
    qed
    finally show ?thesis unfolding fy .
  qed
qed

lemma round_even_eqI:
  assumes "\<bar>x - real_of_int n\<bar> < 1 / 2"
  shows "round_even x = n"
proof -
  have a: "x - 1 / 2 < real_of_int n" "real_of_int n < x + 1 / 2"
    using assms unfolding abs_less_iff by linarith+
  have f: "real_of_int \<lfloor>x\<rfloor> \<le> x" "x < real_of_int \<lfloor>x\<rfloor> + 1"
    by linarith+
  show ?thesis
  proof (cases "x - real_of_int \<lfloor>x\<rfloor> < 1 / 2")
    case True
    have "real_of_int n < real_of_int \<lfloor>x\<rfloor> + 1" using a f True by linarith
    moreover have "real_of_int \<lfloor>x\<rfloor> - 1 < real_of_int n" using a f True by linarith
    ultimately have "n = \<lfloor>x\<rfloor>" by linarith
    then show ?thesis using True by (simp add: round_even_def Let_def)
  next
    case False
    show ?thesis
    proof (cases "1 / 2 < x - real_of_int \<lfloor>x\<rfloor>")
      case True
      have "real_of_int \<lfloor>x\<rfloor> < real_of_int n" using a f True by linarith
      moreover have "real_of_int n < real_of_int \<lfloor>x\<rfloor> + 2" using a f True by linarith
      ultimately have "n = \<lfloor>x\<rfloor> + 1" by linarith
      then show ?thesis using True False by (simp add: round_even_def Let_def)
    next
      case F2: False
      have "x = real_of_int \<lfloor>x\<rfloor> + 1 / 2" using False F2 by linarith
      then have "real_of_int \<lfloor>x\<rfloor> < real_of_int n"
        "real_of_int n < real_of_int (\<lfloor>x\<rfloor> + 1)"
        using a by simp_all
      then have "\<lfloor>x\<rfloor> < n" "n < \<lfloor>x\<rfloor> + 1"
        by (simp_all only: of_int_less_iff)
      then have False by linarith
      then show ?thesis ..
    qed
  qed
qed

lemma round_even_tie:
  "round_even (real_of_int n + 1 / 2) = (if even n then n else n + 1)"
proof -
  have "\<lfloor>real_of_int n + 1 / 2\<rfloor> = n" by linarith
  then show ?thesis by (simp add: round_even_def Let_def)
qed

lemma round_to_posI:
  assumes "0 < p" "2 ^ (p - 1) \<le> x * 2 ^ k" "x * 2 ^ k < 2 ^ p"
    and "round_even (x * 2 ^ k) = n"
  shows "round_to p x = real_of_int n / 2 ^ k"
proof -
  have x: "0 < x"
  proof (rule ccontr)
    assume "\<not> 0 < x"
    then have "x * 2 ^ k \<le> 0" by (simp add: mult_le_0_iff)
    moreover have "(0::real) < 2 ^ (p - 1)" by simp
    ultimately show False using assms(2) by linarith
  qed
  define e where "e = int p - 1 - int k"
  have pk: "(2::real) powi (- int k) = 1 / 2 ^ k"
    by (simp add: power_int_minus field_simps)
  have u: "(2::real) powi (e - int p + 1) = 1 / 2 ^ k"
    unfolding e_def using pk by simp
  have lo: "(2::real) powi e = 2 ^ (p - 1) / 2 ^ k"
  proof -
    have "e = int (p - 1) + (- int k)" unfolding e_def using assms(1) by simp
    then have "(2::real) powi e = 2 powi (int (p - 1)) * 2 powi (- int k)"
      by (simp only: power_int_add_2)
    then show ?thesis using pk by simp
  qed
  have hi: "(2::real) powi (e + 1) = 2 ^ p / 2 ^ k"
  proof -
    have "e + 1 = int p + (- int k)" unfolding e_def by simp
    then have "(2::real) powi (e + 1) = 2 powi (int p) * 2 powi (- int k)"
      by (simp only: power_int_add_2)
    then show ?thesis using pk by simp
  qed
  have a: "2 powi e \<le> \<bar>x\<bar>"
    unfolding lo using assms(2) x by (simp add: field_simps)
  have b: "\<bar>x\<bar> < 2 powi (e + 1)"
    unfolding hi using assms(3) x by (simp add: field_simps)
  show ?thesis
    unfolding round_to_eval [OF a b] u using x assms(4) by simp
qed

lemma round_to_0 [simp]: "round_to p 0 = 0"
  by (simp add: round_to_def)

lemma round_to_int:
  assumes "0 < p" "\<bar>n\<bar> \<le> 2 ^ p"
  shows "round_to p (real_of_int n) = real_of_int n"
proof (cases "\<bar>n\<bar> = 2 ^ p")
  case False
  then have "\<bar>n\<bar> < 2 ^ p" using assms by simp
  from round_to_exact [OF this, of 0] show ?thesis by simp
next
  case True
  obtain q where q: "p = Suc q" using assms(1) by (cases p) auto
  define m where "m = n div 2"
  have "even \<bar>n\<bar>" unfolding True q by simp
  then have "even n" by simp
  then have n: "n = m * 2" by (simp add: m_def)
  have "\<bar>m\<bar> * 2 = 2 ^ p" using True n by (simp add: abs_mult)
  then have "\<bar>m\<bar> < 2 ^ p" using q by simp
  from round_to_exact [OF this, of 1] show ?thesis unfolding n by simp
qed

subsection \<open>Values that rounding leaves unchanged\<close>

lemma prec_ge_24: "24 \<le> prec D"
  by (cases D) simp_all

lemma prec_pos: "0 < prec D"
  by (cases D) simp_all

lemma pow_24_le_prec: "(2::int) ^ 24 \<le> 2 ^ prec D"
  by (rule power_increasing [OF prec_ge_24]) simp

lemma fl_0 [simp]: "fl D 0 = 0"
  by (simp add: fl_def)

lemma fl_int:
  assumes "\<bar>n\<bar> \<le> 2 ^ 24"
  shows "fl D (real_of_int n) = real_of_int n"
proof -
  have "\<bar>n\<bar> \<le> 2 ^ prec D" using assms pow_24_le_prec [of D] by linarith
  then show ?thesis unfolding fl_def by (rule round_to_int [OF prec_pos])
qed

lemma fl_dyadic:
  assumes "\<bar>m\<bar> < 2 ^ 24"
  shows "fl D (real_of_int m * 2 powi k) = real_of_int m * 2 powi k"
proof -
  have "\<bar>m\<bar> < 2 ^ prec D" using assms pow_24_le_prec [of D] by linarith
  then show ?thesis unfolding fl_def by (rule round_to_exact)
qed

lemma fl_1 [simp]: "fl D 1 = 1"
  using fl_int [of 1 D] by simp

lemma fl_numeral:
  assumes "(numeral w :: int) \<le> 2 ^ 24"
  shows "fl D (numeral w) = numeral w"
  using fl_int [of "numeral w" D] assms by simp

lemma fl_neg_numeral:
  assumes "(numeral w :: int) \<le> 2 ^ 24"
  shows "fl D (- numeral w) = - numeral w"
  using fl_int [of "- numeral w" D] assms by simp

lemma fl_half [simp]: "fl D (1 / 2) = 1 / 2"
  using fl_dyadic [of 1 D "- 1"] by (simp add: power_int_minus)

lemma to_Dtype_int:
  assumes "\<bar>n\<bar> \<le> 2 ^ 24"
  shows "to_Dtype D n = real_of_int n"
  unfolding to_Dtype_def using assms by (rule fl_int)

lemma to_Dtype_0 [simp]: "to_Dtype D 0 = 0"
  by (simp add: to_Dtype_def)

lemma to_Dtype_1 [simp]: "to_Dtype D 1 = 1"
  by (simp add: to_Dtype_def)

lemma to_Dtype_numeral:
  assumes "(numeral w :: int) \<le> 2 ^ 24"
  shows "to_Dtype D (numeral w) = numeral w"
  using to_Dtype_int [of "numeral w" D] assms by simp

lemma to_Dtype_neg_numeral:
  assumes "(numeral w :: int) \<le> 2 ^ 24"
  shows "to_Dtype D (- numeral w) = - numeral w"
  using to_Dtype_int [of "- numeral w" D] assms by simp

lemma fl_mono:
  assumes "0 \<le> x" "x \<le> y"
  shows "fl D x \<le> fl D y"
  unfolding fl_def using assms by (rule round_to_mono [OF prec_pos])

lemma fl_Single_posI:
  assumes "2 ^ 23 \<le> x * 2 ^ k" "x * 2 ^ k < 2 ^ 24" "round_even (x * 2 ^ k) = n"
  shows "fl Single x = real_of_int n / 2 ^ k"
  unfolding fl_def prec.simps
  using assms by (intro round_to_posI) simp_all

subsection \<open>32-bit integers\<close>

lemma i32_id:
  assumes "- (2 ^ 31) \<le> x" "x < 2 ^ 31"
  shows "i32 x = x"
  using assms by (simp add: i32_def)

lemma sat32_id:
  assumes "- (2 ^ 31) \<le> x" "x < 2 ^ 31"
  shows "sat32 x = x"
  using assms by (simp add: sat32_def)

lemma c_round_int:
  assumes "- (2 ^ 31) \<le> n" "n < 2 ^ 31"
  shows "c_round (real_of_int n) = n"
proof -
  have "\<lfloor>real_of_int n + 1 / 2\<rfloor> = n" by linarith
  moreover have "\<lceil>real_of_int n - 1 / 2\<rceil> = n" by linarith
  ultimately show ?thesis using assms by (simp add: c_round_def sat32_id)
qed

lemma c_round_0 [simp]: "c_round 0 = 0"
  using c_round_int [of 0] by simp

lemma c_round_1 [simp]: "c_round 1 = 1"
  using c_round_int [of 1] by simp

lemma c_round_numeral:
  assumes "(numeral w :: int) < 2 ^ 31"
  shows "c_round (numeral w) = numeral w"
  using c_round_int [of "numeral w"] assms by simp

lemma c_round_neg_numeral:
  assumes "(numeral w :: int) \<le> 2 ^ 31"
  shows "c_round (- numeral w) = - numeral w"
  using c_round_int [of "- numeral w"] assms by simp

lemma c_int_0 [simp]: "c_int 0 = 0"
  by (simp add: c_int_def sat32_def)

lemma c_int_1 [simp]: "c_int 1 = 1"
  by (simp add: c_int_def sat32_def)

lemma c_floor_int:
  assumes "- (2 ^ 31) \<le> n" "n < 2 ^ 31"
  shows "c_floor (real_of_int n) = n"
  using assms by (simp add: c_floor_def sat32_id)

lemma c_ceil_int:
  assumes "- (2 ^ 31) \<le> n" "n < 2 ^ 31"
  shows "c_ceil (real_of_int n) = n"
  using assms by (simp add: c_ceil_def sat32_id)

section \<open>The kernel bodies in terms of the named quantities\<close>

lemmas roi_defs = roi_batch_ind_of_def roi_start_w_of_def roi_start_h_of_def roi_start_l_of_def
  roi_end_w_of_def roi_end_h_of_def roi_end_l_of_def

lemmas out_defs = out_pw_def out_ph_def out_pl_def out_c_def out_n_def

lemmas box_defs = lstart_of_def lend_of_def hstart_of_def hend_of_def wstart_of_def wend_of_def

lemma ROIPoolForward_body_eq:
  "ROIPoolForward_body L bottom_data bottom_rois index =
     scan_box bottom_data (data_offset_of L bottom_rois index) (height L) (width L)
       (lstart_of L bottom_rois index) (lend_of L bottom_rois index)
       (hstart_of L bottom_rois index) (hend_of L bottom_rois index)
       (wstart_of L bottom_rois index) (wend_of L bottom_rois index)
       (if is_empty_of L bottom_rois index then 0 else - FLT_MAX, - 1)"
  unfolding ROIPoolForward_body_def is_empty_of_def box_defs data_offset_of_def
    bin_start_def bin_end_def bin_size_def roi_extent_def roi_defs out_defs Let_def
  by (rule refl)

lemmas in_defs = in_w_def in_h_def in_l_def in_c_def in_n_def

lemmas cand_defs = plstart_of_def plend_of_def phstart_of_def phend_of_def pwstart_of_def
  pwend_of_def

lemma ROIPoolBackward_roi_eq:
  "ROIPoolBackward_roi L top_diff argmax_data bottom_rois n c l h w roi_n gradient =
     (if n \<noteq> roi_batch_ind_of bottom_rois roi_n then gradient
      else if \<not> in_roi L bottom_rois roi_n l h w then gradient
      else fold (\<lambda>pl. fold (\<lambda>ph. fold (\<lambda>pw. accumulate_bin L top_diff argmax_data
                                                   (top_offset L roi_n c) l h w pl ph pw)
                    [pwstart_of L bottom_rois roi_n w..pwend_of L bottom_rois roi_n w - 1])
                  [phstart_of L bottom_rois roi_n h..phend_of L bottom_rois roi_n h - 1])
                [plstart_of L bottom_rois roi_n l..plend_of L bottom_rois roi_n l - 1] gradient)"
  unfolding ROIPoolBackward_roi_def cand_defs pool_start_def pool_end_def bin_size_def
    top_offset_def in_roi_def roi_extent_def roi_defs Let_def
  by (rule refl)

lemma ROIPoolBackward_body_eq:
  "ROIPoolBackward_body L top_diff argmax_data num_rois bottom_rois index =
     fold (ROIPoolBackward_roi L top_diff argmax_data bottom_rois
             (in_n L index) (in_c L index) (in_l L index) (in_h L index) (in_w L index))
          [0..num_rois - 1] 0"
  unfolding ROIPoolBackward_body_def in_defs Let_def
  by (rule refl)

section \<open>Backward: regions of another batch slot\<close>

text \<open>
  C4. For an input element of batch slot \<open>n\<close> and a region \<open>roi_n\<close> whose batch index (the
  value the kernel reads into \<^verbatim>\<open>roi_batch_ind\<close>) differs from \<open>n\<close>, the iteration of the
  loop over the regions for \<open>roi_n\<close> leaves the accumulated gradient as it was, whatever
  the output gradient and the selection index hold.
\<close>

theorem C4_other_batch_no_contribution:
  "n \<noteq> roi_batch_ind_of bottom_rois roi_n \<Longrightarrow>
   ROIPoolBackward_roi L top_diff argmax_data bottom_rois n c l h w roi_n gradient = gradient"
  by (simp add: ROIPoolBackward_roi_eq)

theorem C4_other_batch_no_contribution_witness:
  "(0::int) \<noteq> roi_batch_ind_of rois_batch1 0 \<and>
   ROIPoolBackward_roi L_w2 (\<lambda>i. 1) (\<lambda>i. 1) rois_batch1 0 0 0 0 1 0 5 = 5"
proof -
  have h: "(0::int) \<noteq> roi_batch_ind_of rois_batch1 0"
    by (simp add: roi_batch_ind_of_def rois_batch1_def)
  show ?thesis
    using h C4_other_batch_no_contribution [OF h, of L_w2 "\<lambda>i. 1" "\<lambda>i. 1" 0 0 0 1 5]
    by simp
qed

section \<open>Index arithmetic\<close>

lemma sdiv_nonneg: "0 \<le> a \<Longrightarrow> 0 < b \<Longrightarrow> a sdiv b = a div (b::int)"
  by (simp add: signed_divide_int_def sgn_if)

lemma smod_nonneg: "0 \<le> a \<Longrightarrow> 0 < b \<Longrightarrow> a smod b = a mod (b::int)"
  by (simp add: signed_modulo_int_def sgn_if)

lemma sdiv_nonneg_ge0: "0 \<le> a \<Longrightarrow> 0 < b \<Longrightarrow> 0 \<le> a sdiv (b::int)"
  by (simp add: sdiv_nonneg pos_imp_zdiv_nonneg_iff)

lemma smod_range: "0 \<le> a \<Longrightarrow> 0 < b \<Longrightarrow> 0 \<le> a smod (b::int) \<and> a smod b < b"
  by (simp add: smod_nonneg)

lemma out_pw_range:
  "0 \<le> index \<Longrightarrow> 0 < pooled_width L \<Longrightarrow> 0 \<le> out_pw L index \<and> out_pw L index < pooled_width L"
  unfolding out_pw_def by (rule smod_range)

lemma out_ph_range:
  "0 \<le> index \<Longrightarrow> 0 < pooled_width L \<Longrightarrow> 0 < pooled_height L \<Longrightarrow>
   0 \<le> out_ph L index \<and> out_ph L index < pooled_height L"
  unfolding out_ph_def by (intro smod_range sdiv_nonneg_ge0)

lemma out_pl_range:
  "0 \<le> index \<Longrightarrow> 0 < pooled_width L \<Longrightarrow> 0 < pooled_height L \<Longrightarrow> 0 < pooled_length L \<Longrightarrow>
   0 \<le> out_pl L index \<and> out_pl L index < pooled_length L"
  unfolding out_pl_def by (intro smod_range sdiv_nonneg_ge0)

section \<open>Forward: the scan of a bin\<close>

lemma scan_box_empty:
  "lend \<le> lstart \<or> hend \<le> hstart \<or> wend \<le> wstart \<Longrightarrow>
   scan_box bottom_data data_offset hgt wid lstart lend hstart hend wstart wend s = s"
proof -
  have id_fold: "fold (\<lambda>x. id) xs s' = s'" for xs :: "int list" and s' :: "Dtype \<times> int"
    by (induction xs) simp_all
  assume "lend \<le> lstart \<or> hend \<le> hstart \<or> wend \<le> wstart"
  then consider "lend \<le> lstart" | "hend \<le> hstart" | "wend \<le> wstart" by blast
  then show ?thesis
  proof cases
    case 1
    then show ?thesis by (simp add: scan_box_def)
  next
    case 2
    then have "[hstart..hend - 1] = []" by simp
    then show ?thesis using id_fold [of "[lstart..lend - 1]" s]
      by (simp add: scan_box_def id_def)
  next
    case 3
    then have "[wstart..wend - 1] = []" by simp
    then show ?thesis using id_fold [of "[hstart..hend - 1]"] id_fold [of "[lstart..lend - 1]" s]
      by (simp add: scan_box_def id_def fold_id)
  qed
qed


lemma fold_concat_eq: "fold f (concat xss) = fold (fold f) xss"
  by (induction xss) simp_all

lemma scan_box_cells:
  "scan_box bottom_data data_offset hgt wid lstart lend hstart hend wstart wend s =
     fold (\<lambda>c. scan_cell bottom_data data_offset hgt wid (fst c) (fst (snd c)) (snd (snd c)))
          (box_cells lstart lend hstart hend wstart wend) s"
  unfolding scan_box_def box_cells_def
  by (simp add: fold_concat_eq fold_map comp_def)

lemma set_box_cells:
  "set (box_cells lstart lend hstart hend wstart wend) =
     {(l, h, w). lstart \<le> l \<and> l < lend \<and> hstart \<le> h \<and> h < hend \<and> wstart \<le> w \<and> w < wend}"
proof -
  have "(l, h, w) \<in> set (box_cells lstart lend hstart hend wstart wend) \<longleftrightarrow>
        lstart \<le> l \<and> l < lend \<and> hstart \<le> h \<and> h < hend \<and> wstart \<le> w \<and> w < wend" for l h w
    unfolding box_cells_def by (auto simp: image_iff)
  then show ?thesis by auto
qed

lemma sorted_wrt_concat_map:
  assumes "sorted_wrt Q xs"
    and "\<And>x. x \<in> set xs \<Longrightarrow> sorted_wrt P (f x)"
    and "\<And>x y a b. Q x y \<Longrightarrow> a \<in> set (f x) \<Longrightarrow> b \<in> set (f y) \<Longrightarrow> P a b"
  shows "sorted_wrt P (concat (map f xs))"
  using assms(1,2)
proof (induction xs)
  case Nil
  then show ?case by simp
next
  case (Cons x xs)
  then show ?case
    by (auto simp: sorted_wrt_append intro: assms(3))
qed

lemma sorted_box_cells:
  "sorted_wrt scan_before (box_cells lstart lend hstart hend wstart wend)"
  unfolding box_cells_def
proof (rule sorted_wrt_concat_map [where Q = "(<)"])
  show "sorted_wrt (<) [lstart..lend - 1]" by simp
next
  fix l
  show "sorted_wrt scan_before
          (concat (map (\<lambda>h. map (\<lambda>w. (l, h, w)) [wstart..wend - 1]) [hstart..hend - 1]))"
  proof (rule sorted_wrt_concat_map [where Q = "(<)"])
    show "sorted_wrt (<) [hstart..hend - 1]" by simp
  next
    fix h
    show "sorted_wrt scan_before (map (\<lambda>w. (l, h, w)) [wstart..wend - 1])"
      by (simp add: sorted_wrt_map scan_before_def)
  next
    fix x y :: int and a b
    assume "x < y" "a \<in> set (map (\<lambda>w. (l, x, w)) [wstart..wend - 1])"
      "b \<in> set (map (\<lambda>w. (l, y, w)) [wstart..wend - 1])"
    then show "scan_before a b" by (auto simp: scan_before_def)
  qed
next
  fix x y :: int and a b
  assume "x < y"
    "a \<in> set (concat (map (\<lambda>h. map (\<lambda>w. (x, h, w)) [wstart..wend - 1]) [hstart..hend - 1]))"
    "b \<in> set (concat (map (\<lambda>h. map (\<lambda>w. (y, h, w)) [wstart..wend - 1]) [hstart..hend - 1]))"
  then show "scan_before a b" by (auto simp: scan_before_def)
qed

lemma fold_strict_max:
  fixes v :: "'a \<Rightarrow> real" and ix :: "'a \<Rightarrow> int"
  assumes step: "\<And>x s. step x s = (if v x > fst s then (v x, ix x) else s)"
  shows "(fold step xs (m0, i0) = (m0, i0) \<and> (\<forall>j<length xs. v (xs ! j) \<le> m0)) \<or>
         (\<exists>k<length xs. fold step xs (m0, i0) = (v (xs ! k), ix (xs ! k)) \<and> m0 < v (xs ! k) \<and>
            (\<forall>j<k. v (xs ! j) < v (xs ! k)) \<and> (\<forall>j<length xs. v (xs ! j) \<le> v (xs ! k)))"
proof (induction xs rule: rev_induct)
  case Nil
  then show ?case by simp
next
  case (snoc x xs)
  let ?r = "fold step xs (m0, i0)"
  from snoc consider
    (none) "?r = (m0, i0)" "\<forall>j<length xs. v (xs ! j) \<le> m0"
    | (some) k where "k < length xs" "?r = (v (xs ! k), ix (xs ! k))" "m0 < v (xs ! k)"
      "\<forall>j<k. v (xs ! j) < v (xs ! k)" "\<forall>j<length xs. v (xs ! j) \<le> v (xs ! k)"
    by blast
  then show ?case
  proof cases
    case none
    show ?thesis
    proof (cases "v x > m0")
      case True
      have "fold step (xs @ [x]) (m0, i0) = (v x, ix x)"
        using True none(1) by (simp add: step)
      moreover have "\<forall>j<length xs. v ((xs @ [x]) ! j) < v x"
        using none(2) True by (auto simp: nth_append)
      moreover have "\<forall>j<length (xs @ [x]). v ((xs @ [x]) ! j) \<le> v x"
        using none(2) True by (auto simp: nth_append less_Suc_eq)
      ultimately show ?thesis
        using True by (intro disjI2 exI [of _ "length xs"]) simp
    next
      case False
      have "fold step (xs @ [x]) (m0, i0) = (m0, i0)"
        using False none(1) by (simp add: step)
      moreover have "\<forall>j<length (xs @ [x]). v ((xs @ [x]) ! j) \<le> m0"
        using none(2) False by (auto simp: nth_append less_Suc_eq)
      ultimately show ?thesis by blast
    qed
  next
    case some
    show ?thesis
    proof (cases "v x > v (xs ! k)")
      case True
      have "fold step (xs @ [x]) (m0, i0) = (v x, ix x)"
        using True some(2) by (simp add: step)
      moreover have "\<forall>j<length xs. v ((xs @ [x]) ! j) < v x"
        using some(5) True by (fastforce simp: nth_append)
      moreover have "\<forall>j<length (xs @ [x]). v ((xs @ [x]) ! j) \<le> v x"
        using some(5) True by (fastforce simp: nth_append less_Suc_eq)
      moreover have "m0 < v x" using True some(3) by simp
      ultimately show ?thesis
        by (intro disjI2 exI [of _ "length xs"]) simp
    next
      case False
      have "fold step (xs @ [x]) (m0, i0) = (v (xs ! k), ix (xs ! k))"
        using False some(2) by (simp add: step)
      moreover have "\<forall>j<length (xs @ [x]). v ((xs @ [x]) ! j) \<le> v (xs ! k)"
        using some(5) False by (auto simp: nth_append less_Suc_eq)
      moreover have "\<forall>j<k. v ((xs @ [x]) ! j) < v (xs ! k)"
        using some(1,4) by (auto simp: nth_append)
      ultimately show ?thesis
        using some(1,3) by (intro disjI2 exI [of _ k]) (simp add: nth_append)
    qed
  qed
qed

lemma ROIPoolForward_body_cases:
  fixes L bottom_data bottom_rois index
  defines "r \<equiv> ROIPoolForward_body L bottom_data bottom_rois index"
    and "v \<equiv> \<lambda>l h w. bottom_data (data_offset_of L bottom_rois index + bottom_index L l h w)"
    and "m0 \<equiv> (if is_empty_of L bottom_rois index then 0 else - FLT_MAX)"
  shows "(r = (m0, - 1) \<and> (\<forall>l h w. in_bin L bottom_rois index l h w \<longrightarrow> v l h w \<le> m0)) \<or>
         (\<exists>l h w. in_bin L bottom_rois index l h w \<and> r = (v l h w, bottom_index L l h w) \<and>
            m0 < v l h w \<and>
            (\<forall>l' h' w'. in_bin L bottom_rois index l' h' w' \<longrightarrow> v l' h' w' \<le> v l h w) \<and>
            (\<forall>l' h' w'. in_bin L bottom_rois index l' h' w' \<and> scan_before (l', h', w') (l, h, w)
               \<longrightarrow> v l' h' w' < v l h w))"
proof -
  define cells where "cells = box_cells (lstart_of L bottom_rois index) (lend_of L bottom_rois index)
    (hstart_of L bottom_rois index) (hend_of L bottom_rois index)
    (wstart_of L bottom_rois index) (wend_of L bottom_rois index)"
  define vc where "vc = (\<lambda>c. v (fst c) (fst (snd c)) (snd (snd c)))"
  define ic where "ic = (\<lambda>c. bottom_index L (fst c) (fst (snd c)) (snd (snd c)))"
  define step where "step = (\<lambda>c. scan_cell bottom_data (data_offset_of L bottom_rois index)
    (height L) (width L) (fst c) (fst (snd c)) (snd (snd c)))"
  have r: "r = fold step cells (m0, - 1)"
    unfolding r_def ROIPoolForward_body_eq scan_box_cells cells_def step_def m0_def ..
  have step: "step x s = (if vc x > fst s then (vc x, ic x) else s)" for x s
    unfolding step_def scan_cell_def vc_def ic_def v_def bottom_index_def Let_def ..
  have mem: "(l, h, w) \<in> set cells \<longleftrightarrow> in_bin L bottom_rois index l h w" for l h w
    unfolding cells_def set_box_cells in_bin_def by simp
  have sorted: "sorted_wrt scan_before cells"
    unfolding cells_def by (rule sorted_box_cells)
  from fold_strict_max [of step vc ic cells m0 "- 1", OF step]
  consider
    (none) "fold step cells (m0, - 1) = (m0, - 1)" "\<forall>j<length cells. vc (cells ! j) \<le> m0"
    | (some) k where "k < length cells" "fold step cells (m0, - 1) = (vc (cells ! k), ic (cells ! k))"
      "m0 < vc (cells ! k)" "\<forall>j<k. vc (cells ! j) < vc (cells ! k)"
      "\<forall>j<length cells. vc (cells ! j) \<le> vc (cells ! k)"
    by blast
  then show ?thesis
  proof cases
    case none
    have "v l h w \<le> m0" if "in_bin L bottom_rois index l h w" for l h w
    proof -
      from that have "(l, h, w) \<in> set cells" by (simp add: mem)
      then obtain j where "j < length cells" "cells ! j = (l, h, w)"
        by (auto simp: in_set_conv_nth)
      with none(2) show ?thesis by (auto simp: vc_def)
    qed
    with none(1) r show ?thesis by blast
  next
    case some
    obtain l h w where c: "cells ! k = (l, h, w)" by (cases "cells ! k") auto
    have inb: "in_bin L bottom_rois index l h w"
      using some(1) c mem nth_mem by metis
    have res: "r = (v l h w, bottom_index L l h w)"
      using r some(2) c by (simp add: vc_def ic_def)
    have m: "m0 < v l h w" using some(3) c by (simp add: vc_def)
    have le: "v l' h' w' \<le> v l h w" if "in_bin L bottom_rois index l' h' w'" for l' h' w'
    proof -
      from that have "(l', h', w') \<in> set cells" by (simp add: mem)
      then obtain j where "j < length cells" "cells ! j = (l', h', w')"
        by (auto simp: in_set_conv_nth)
      with some(5) c show ?thesis by (auto simp: vc_def)
    qed
    have lt: "v l' h' w' < v l h w"
      if "in_bin L bottom_rois index l' h' w'" "scan_before (l', h', w') (l, h, w)" for l' h' w'
    proof -
      from that have "(l', h', w') \<in> set cells" by (simp add: mem)
      then obtain j where j: "j < length cells" "cells ! j = (l', h', w')"
        by (auto simp: in_set_conv_nth)
      have "j < k"
      proof (rule ccontr)
        assume "\<not> j < k"
        then consider "j = k" | "k < j" by linarith
        then show False
        proof cases
          case 1
          with j c that(2) show False by (simp add: scan_before_def)
        next
          case 2
          then have "scan_before (cells ! k) (cells ! j)"
            using sorted j(1) by (simp add: sorted_wrt_nth_less)
          with j c that(2) show False by (auto simp: scan_before_def)
        qed
      qed
      with some(4) j c show ?thesis by (auto simp: vc_def)
    qed
    show ?thesis
      using inb res m le lt by blast
  qed
qed

lemma bin_cell_range:
  assumes "bin_start D roi_start extent pooled bound p \<le> x"
    and "x < bin_end D roi_start extent pooled bound p"
  shows "0 \<le> x \<and> x < bound"
  using assms unfolding bin_start_def bin_end_def by linarith

lemma in_bin_in_volume:
  assumes "in_bin L bottom_rois index l h w"
  shows "0 \<le> l \<and> l < length_dim L \<and> 0 \<le> h \<and> h < height L \<and> 0 \<le> w \<and> w < width L"
  using assms bin_cell_range unfolding in_bin_def box_defs Let_def
  by blast

section \<open>Forward: the contents of the output buffers\<close>

lemma ROIPoolForward_sched_top:
  "top0_data (ROIPoolForward_sched sched L bottom_data bottom_rois st) i =
     (if i \<in> set sched then fst (ROIPoolForward_body L bottom_data bottom_rois i)
      else top0_data st i)"
  unfolding ROIPoolForward_sched_def
  by (induction sched arbitrary: st) (simp_all add: ROIPoolForward_unit_def Let_def)

lemma ROIPoolForward_sched_argmax:
  "max_idx_data (ROIPoolForward_sched sched L bottom_data bottom_rois st) i =
     (if i \<in> set sched then snd (ROIPoolForward_body L bottom_data bottom_rois i)
      else max_idx_data st i)"
  unfolding ROIPoolForward_sched_def
  by (induction sched arbitrary: st) (simp_all add: ROIPoolForward_unit_def Let_def)

lemma Forward_gpu_top:
  "top0_data (Forward_gpu L num_rois bottom_data bottom_rois st) i =
     (if 0 \<le> i \<and> i < num_rois * channels L * pooled_length L * pooled_height L * pooled_width L
      then fst (ROIPoolForward_body L bottom_data bottom_rois i) else top0_data st i)"
  unfolding Forward_gpu_def ROIPoolForward_def Let_def ROIPoolForward_sched_top
  by auto

lemma Forward_gpu_argmax:
  "max_idx_data (Forward_gpu L num_rois bottom_data bottom_rois st) i =
     (if 0 \<le> i \<and> i < num_rois * channels L * pooled_length L * pooled_height L * pooled_width L
      then snd (ROIPoolForward_body L bottom_data bottom_rois i) else max_idx_data st i)"
  unfolding Forward_gpu_def ROIPoolForward_def Let_def ROIPoolForward_sched_argmax
  by auto

section \<open>Evaluation on the concrete inputs\<close>

lemma i32_0 [simp]: "i32 0 = 0"
  by (simp add: i32_def)

lemma i32_1 [simp]: "i32 1 = 1"
  by (simp add: i32_def)

lemma i32_m1 [simp]: "i32 (- 1) = - 1"
  by (simp add: i32_def)

lemma i32_numeral:
  assumes "(numeral w :: int) < 2 ^ 31"
  shows "i32 (numeral w) = numeral w"
  using assms by (intro i32_id) simp_all

lemma i32_neg_numeral:
  assumes "(numeral w :: int) \<le> 2 ^ 31"
  shows "i32 (- numeral w) = - numeral w"
  using assms by (intro i32_id) simp_all

lemmas num_eval = fl_numeral fl_neg_numeral to_Dtype_numeral to_Dtype_neg_numeral
  c_round_numeral c_round_neg_numeral i32_numeral i32_neg_numeral sat32_def c_floor_def
  c_ceil_def

lemmas box_eval = box_defs bin_start_def bin_end_def bin_size_def roi_extent_def roi_defs out_defs
  num_eval

lemma upto_0_1: "[0..1] = [0, 1::int]"
  by (simp add: upto_rec1)

lemma scan_box_w2:
  "scan_box bottom_data 0 1 2 0 1 0 1 0 2 s =
     scan_cell bottom_data 0 1 2 0 0 1 (scan_cell bottom_data 0 1 2 0 0 0 s)"
  by (simp add: scan_box_def upto_0_1)

lemma L_w2_dims:
  "height L_w2 = 1" "width L_w2 = 2" "length_dim L_w2 = 1" "channels L_w2 = 1"
  "pooled_length L_w2 = 1" "pooled_height L_w2 = 1" "pooled_width L_w2 = 1"
  "dtype L_w2 = Single" "spatial_scale_xy L_w2 = 1" "spatial_scale_z L_w2 = 1"
  by (simp_all add: L_w2_def)

lemma L_w2_full_rois:
  "roi_batch_ind_of rois_full 0 = 0"
  "roi_start_l_of L_w2 rois_full 0 = 0" "roi_start_h_of L_w2 rois_full 0 = 0"
  "roi_start_w_of L_w2 rois_full 0 = 0"
  "roi_end_l_of L_w2 rois_full 0 = 0" "roi_end_h_of L_w2 rois_full 0 = 0"
  "roi_end_w_of L_w2 rois_full 0 = 1"
  by (simp_all add: roi_defs L_w2_dims rois_full_def)

lemma L_w2_out:
  "out_n L_w2 0 = 0" "out_c L_w2 0 = 0" "out_pl L_w2 0 = 0" "out_ph L_w2 0 = 0"
  "out_pw L_w2 0 = 0"
  by (simp_all add: out_defs L_w2_dims)

lemma roi_extent_small:
  "roi_extent 0 0 = 1" "roi_extent 0 1 = 2" "roi_extent 0 3 = 4" "roi_extent 1 0 = 1"
  by (simp_all add: roi_extent_def i32_numeral)

lemma L_w2_full_box:
  "lstart_of L_w2 rois_full 0 = 0" "lend_of L_w2 rois_full 0 = 1"
  "hstart_of L_w2 rois_full 0 = 0" "hend_of L_w2 rois_full 0 = 1"
  "wstart_of L_w2 rois_full 0 = 0" "wend_of L_w2 rois_full 0 = 2"
  "data_offset_of L_w2 rois_full 0 = 0"
  by (simp_all add: box_defs data_offset_of_def L_w2_out L_w2_full_rois L_w2_dims
      roi_extent_small bin_start_def bin_end_def bin_size_def num_eval)

lemma body_w2_full:
  "ROIPoolForward_body L_w2 bottom_data rois_full 0 =
     scan_cell bottom_data 0 1 2 0 0 1 (scan_cell bottom_data 0 1 2 0 0 0 (- FLT_MAX, - 1))"
  by (simp add: ROIPoolForward_body_eq is_empty_of_def L_w2_full_box L_w2_dims scan_box_w2)

lemma body_w2_full_ramp:
  "ROIPoolForward_body L_w2 (\<lambda>i. real_of_int i) rois_full 0 = (1, 1)"
  by (simp add: body_w2_full scan_cell_def FLT_MAX_def)

lemma L_w2_full_in_bin:
  "in_bin L_w2 rois_full 0 0 0 0" "in_bin L_w2 rois_full 0 0 0 1"
  by (simp_all add: in_bin_def L_w2_full_box)

lemma L_w2_bottom_index: "bottom_index L_w2 0 0 w = w"
  by (simp add: bottom_index_def L_w2_dims)

section \<open>Forward: the selection index points into the bin\<close>

text \<open>
  C9. After the forward pass, at every output position the stored selection index is
  either -1 or the flat coordinate of a cell of that position's clamped bin box, which
  lies inside the volume; in the second case the pooled output stored at the position is
  the feature-volume element at that coordinate, at the offset of the region's batch slot
  and the position's channel.
\<close>

theorem C9_selection_index_invariant:
  assumes "0 \<le> index"
    and "index < num_rois * channels L * pooled_length L * pooled_height L * pooled_width L"
  shows "max_idx_data (Forward_gpu L num_rois bottom_data bottom_rois st) index = - 1 \<or>
         (\<exists>l h w. in_bin L bottom_rois index l h w \<and>
            0 \<le> l \<and> l < length_dim L \<and> 0 \<le> h \<and> h < height L \<and> 0 \<le> w \<and> w < width L \<and>
            max_idx_data (Forward_gpu L num_rois bottom_data bottom_rois st) index
              = bottom_index L l h w \<and>
            top0_data (Forward_gpu L num_rois bottom_data bottom_rois st) index
              = bottom_data (data_offset_of L bottom_rois index + bottom_index L l h w))"
proof -
  have a: "max_idx_data (Forward_gpu L num_rois bottom_data bottom_rois st) index
             = snd (ROIPoolForward_body L bottom_data bottom_rois index)"
    using assms by (simp add: Forward_gpu_argmax)
  have t: "top0_data (Forward_gpu L num_rois bottom_data bottom_rois st) index
             = fst (ROIPoolForward_body L bottom_data bottom_rois index)"
    using assms by (simp add: Forward_gpu_top)
  from ROIPoolForward_body_cases [of L bottom_data bottom_rois index]
  consider "snd (ROIPoolForward_body L bottom_data bottom_rois index) = - 1"
    | l h w where "in_bin L bottom_rois index l h w"
      "ROIPoolForward_body L bottom_data bottom_rois index
         = (bottom_data (data_offset_of L bottom_rois index + bottom_index L l h w),
            bottom_index L l h w)"
    by force
  then show ?thesis
  proof cases
    case 1
    then show ?thesis using a by simp
  next
    case 2
    then show ?thesis
      using a t in_bin_in_volume [OF 2(1)]
      by (intro disjI2 exI [of _ l] exI [of _ h] exI [of _ w]) simp
  qed
qed

theorem C9_selection_index_invariant_witness:
  "max_idx_data (Forward_gpu L_w2 1 (\<lambda>i. real_of_int i) rois_full bufs0) 0 = 1 \<and>
   top0_data (Forward_gpu L_w2 1 (\<lambda>i. real_of_int i) rois_full bufs0) 0 = 1 \<and>
   in_bin L_w2 rois_full 0 0 0 1 \<and> bottom_index L_w2 0 0 1 = 1 \<and>
   data_offset_of L_w2 rois_full 0 = 0"
proof -
  have h: "(0::int) \<le> 0"
    "0 < 1 * channels L_w2 * pooled_length L_w2 * pooled_height L_w2 * pooled_width L_w2"
    by (simp_all add: L_w2_dims)
  show ?thesis
    using C9_selection_index_invariant [OF h, of "\<lambda>i. real_of_int i" rois_full bufs0]
      L_w2_full_in_bin(2)
    by (simp add: Forward_gpu_top Forward_gpu_argmax L_w2_dims body_w2_full_ramp
        L_w2_bottom_index L_w2_full_box)
qed

section \<open>Forward: ties go to the first maximum of the scan\<close>




section \<open>Forward: the pooled value\<close>

lemma ROIPoolForward_body_nonempty:
  assumes "\<not> is_empty_of L bottom_rois index"
  obtains
    (none) "ROIPoolForward_body L bottom_data bottom_rois index = (- FLT_MAX, - 1)"
      "\<forall>l h w. in_bin L bottom_rois index l h w \<longrightarrow>
        bottom_data (data_offset_of L bottom_rois index + bottom_index L l h w) \<le> - FLT_MAX"
    | (some) l h w where "in_bin L bottom_rois index l h w"
      "ROIPoolForward_body L bottom_data bottom_rois index =
         (bottom_data (data_offset_of L bottom_rois index + bottom_index L l h w),
          bottom_index L l h w)"
      "- FLT_MAX < bottom_data (data_offset_of L bottom_rois index + bottom_index L l h w)"
      "\<forall>l' h' w'. in_bin L bottom_rois index l' h' w' \<longrightarrow>
         bottom_data (data_offset_of L bottom_rois index + bottom_index L l' h' w')
           \<le> bottom_data (data_offset_of L bottom_rois index + bottom_index L l h w)"
  using ROIPoolForward_body_cases [of L bottom_data bottom_rois index] assms
  by (simp only: if_False) blast

lemma ROIPoolForward_body_fst_Max:
  assumes "\<not> is_empty_of L bottom_rois index"
  shows "fst (ROIPoolForward_body L bottom_data bottom_rois index) =
     Max (insert (- FLT_MAX)
       ((\<lambda>c. bottom_data (data_offset_of L bottom_rois index
                 + bottom_index L (fst c) (fst (snd c)) (snd (snd c)))) `
        set (box_cells (lstart_of L bottom_rois index) (lend_of L bottom_rois index)
               (hstart_of L bottom_rois index) (hend_of L bottom_rois index)
               (wstart_of L bottom_rois index) (wend_of L bottom_rois index))))"
    (is "?r = Max (insert _ (?f ` set ?cells))")
proof -
  have mem: "c \<in> set ?cells \<longleftrightarrow> in_bin L bottom_rois index (fst c) (fst (snd c)) (snd (snd c))"
    for c
    unfolding set_box_cells in_bin_def by (cases c) simp
  from assms show ?thesis
  proof (cases rule: ROIPoolForward_body_nonempty [where bottom_data = bottom_data])
    case none
    have "Max (insert (- FLT_MAX) (?f ` set ?cells)) = - FLT_MAX"
    proof (rule Max_eqI)
      show "finite (insert (- FLT_MAX) (?f ` set ?cells))" by simp
      show "y \<le> - FLT_MAX" if "y \<in> insert (- FLT_MAX) (?f ` set ?cells)" for y
      proof -
        from that consider "y = - FLT_MAX" | c where "c \<in> set ?cells" "y = ?f c" by blast
        then show ?thesis
        proof cases
          case 1
          then show ?thesis by simp
        next
          case 2
          then show ?thesis using none(2) mem [of c] by simp
        qed
      qed
      show "- FLT_MAX \<in> insert (- FLT_MAX) (?f ` set ?cells)" by simp
    qed
    with none(1) show ?thesis by simp
  next
    case (some l h w)
    have "Max (insert (- FLT_MAX) (?f ` set ?cells)) = ?f (l, h, w)"
    proof (rule Max_eqI)
      show "finite (insert (- FLT_MAX) (?f ` set ?cells))" by simp
      show "y \<le> ?f (l, h, w)" if "y \<in> insert (- FLT_MAX) (?f ` set ?cells)" for y
      proof -
        from that consider "y = - FLT_MAX" | c where "c \<in> set ?cells" "y = ?f c" by blast
        then show ?thesis
        proof cases
          case 1
          then show ?thesis using some(3) by simp
        next
          case 2
          then show ?thesis using some(4) mem [of c] by simp
        qed
      qed
      have "(l, h, w) \<in> set ?cells" using some(1) mem by simp
      then show "?f (l, h, w) \<in> insert (- FLT_MAX) (?f ` set ?cells)" by blast
    qed
    with some(2) show ?thesis by simp
  qed
qed

section \<open>Forward: the example of shape (1,1,4,4,4) pooled to (2,2,2)\<close>

lemma box_cells_cube:
  "box_cells 0 2 0 2 0 2 =
     [(0, 0, 0), (0, 0, 1), (0, 1, 0), (0, 1, 1), (1, 0, 0), (1, 0, 1), (1, 1, 0), (1, 1, 1)]"
  by (simp add: box_cells_def upto_0_1)

lemma bin_444:
  assumes "0 \<le> p" "p < 2"
  shows "bin_start D 0 (roi_extent 0 3) 2 4 p = 2 * p"
    and "bin_end D 0 (roi_extent 0 3) 2 4 p = 2 * p + 2"
proof -
  from assms consider "p = 0" | "p = 1" by linarith
  then show "bin_start D 0 (roi_extent 0 3) 2 4 p = 2 * p"
    by cases (simp_all add: bin_start_def bin_size_def roi_extent_small num_eval)
  from assms consider "p = 0" | "p = 1" by linarith
  then show "bin_end D 0 (roi_extent 0 3) 2 4 p = 2 * p + 2"
    by cases (simp_all add: bin_end_def bin_size_def roi_extent_small num_eval)
qed

lemma out_n_444:
  assumes "pooled_length L = 2" "pooled_height L = 2" "pooled_width L = 2" "channels L = 1"
    "0 \<le> index" "index < 8"
  shows "out_n L index = 0"
proof -
  have "index sdiv 2 sdiv 2 sdiv 2 = index div 2 div 2 div 2"
    using assms(5) by (simp add: sdiv_nonneg pos_imp_zdiv_nonneg_iff)
  also have "\<dots> = 0" using assms(5,6) by simp
  finally show ?thesis by (simp add: out_n_def assms)
qed

lemma L_444_dims:
  "height L_444 = 4" "width L_444 = 4" "length_dim L_444 = 4" "channels L_444 = 1"
  "pooled_length L_444 = 2" "pooled_height L_444 = 2" "pooled_width L_444 = 2"
  by (simp_all add: L_444_def)

lemma L_444_rois:
  "roi_batch_ind_of rois_444 0 = 0"
  "roi_start_l_of L_444 rois_444 0 = 0" "roi_start_h_of L_444 rois_444 0 = 0"
  "roi_start_w_of L_444 rois_444 0 = 0"
  "roi_end_l_of L_444 rois_444 0 = 3" "roi_end_h_of L_444 rois_444 0 = 3"
  "roi_end_w_of L_444 rois_444 0 = 3"
  by (simp_all add: roi_defs L_444_def rois_444_def num_eval)

lemma L_444_box:
  "lstart_of L_444 rois_444 0 = 0" "lend_of L_444 rois_444 0 = 2"
  "hstart_of L_444 rois_444 0 = 0" "hend_of L_444 rois_444 0 = 2"
  "wstart_of L_444 rois_444 0 = 0" "wend_of L_444 rois_444 0 = 2"
  "data_offset_of L_444 rois_444 0 = 0"
  by (simp_all add: box_defs data_offset_of_def out_defs L_444_rois L_444_dims bin_444)

lemma L_444_bottom_index: "bottom_index L_444 l h w = l * 16 + h * 4 + w"
  by (simp add: bottom_index_def L_444_dims)

text \<open>
  C7 as stated fails in its last part: the running maximum starts at \<open>- FLT_MAX\<close>, so when
  all 8 elements of the sub-cube are below \<open>- FLT_MAX\<close> the output is \<open>- FLT_MAX\<close> and not
  their maximum.
\<close>

theorem C7_round_trip_example_counterexample:
  "top0_data (Forward_gpu L_444 1 data_low rois_444 bufs0) 0 = - FLT_MAX \<and>
   Max {data_low (bottom_index L_444 0 0 0), data_low (bottom_index L_444 0 0 1),
        data_low (bottom_index L_444 0 1 0), data_low (bottom_index L_444 0 1 1),
        data_low (bottom_index L_444 1 0 0), data_low (bottom_index L_444 1 0 1),
        data_low (bottom_index L_444 1 1 0), data_low (bottom_index L_444 1 1 1)}
     = 21 * 2 ^ 80 - 2 ^ 129 \<and>
   - FLT_MAX \<noteq> 21 * 2 ^ 80 - 2 ^ 129"
proof -
  have ne: "\<not> is_empty_of L_444 rois_444 0"
    by (simp add: is_empty_of_def L_444_box)
  have "fst (ROIPoolForward_body L_444 data_low rois_444 0) = - FLT_MAX"
    by (simp add: ROIPoolForward_body_fst_Max [OF ne] L_444_box box_cells_cube L_444_bottom_index
        data_low_def FLT_MAX_def)
  then show ?thesis
    by (simp add: Forward_gpu_top L_444_dims L_444_bottom_index data_low_def FLT_MAX_def)
qed

text \<open>
  C7, amended. For a volume of shape (1,1,4,4,4), pooled shape (2,2,2) and a single region
  whose scaled, rounded boundaries are 0 and 3 on each axis, the bin of every output
  position is \<open>[2p, 2p + 2)\<close> on each axis, where \<open>p\<close>, the pooled coordinate of the position
  on that axis, is 0 or 1; and the output at position 0 is the maximum of \<open>- FLT_MAX\<close> and
  the 8 elements of the sub-cube \<open>[0,2) x [0,2) x [0,2)\<close>, hence the maximum of the 8
  elements when one of them is at least \<open>- FLT_MAX\<close>.
\<close>

theorem C7_round_trip_example:
  assumes dims: "length_dim L = 4" "height L = 4" "width L = 4" "channels L = 1"
      "pooled_length L = 2" "pooled_height L = 2" "pooled_width L = 2"
    and roi: "roi_batch_ind_of bottom_rois 0 = 0"
      "roi_start_l_of L bottom_rois 0 = 0" "roi_start_h_of L bottom_rois 0 = 0"
      "roi_start_w_of L bottom_rois 0 = 0"
      "roi_end_l_of L bottom_rois 0 = 3" "roi_end_h_of L bottom_rois 0 = 3"
      "roi_end_w_of L bottom_rois 0 = 3"
    and idx: "0 \<le> index" "index < 8"
  shows "out_pl L index \<in> {0, 1} \<and> out_ph L index \<in> {0, 1} \<and> out_pw L index \<in> {0, 1} \<and>
     lstart_of L bottom_rois index = 2 * out_pl L index \<and>
     lend_of L bottom_rois index = 2 * out_pl L index + 2 \<and>
     hstart_of L bottom_rois index = 2 * out_ph L index \<and>
     hend_of L bottom_rois index = 2 * out_ph L index + 2 \<and>
     wstart_of L bottom_rois index = 2 * out_pw L index \<and>
     wend_of L bottom_rois index = 2 * out_pw L index + 2 \<and>
     top0_data (Forward_gpu L 1 bottom_data bottom_rois st) 0 =
       Max {- FLT_MAX,
            bottom_data (bottom_index L 0 0 0), bottom_data (bottom_index L 0 0 1),
            bottom_data (bottom_index L 0 1 0), bottom_data (bottom_index L 0 1 1),
            bottom_data (bottom_index L 1 0 0), bottom_data (bottom_index L 1 0 1),
            bottom_data (bottom_index L 1 1 0), bottom_data (bottom_index L 1 1 1)}"
proof -
  have pos: "0 < pooled_width L" "0 < pooled_height L" "0 < pooled_length L"
    using dims by simp_all
  have pl: "0 \<le> out_pl L index" "out_pl L index < 2"
    using out_pl_range [OF idx(1) pos] dims by simp_all
  have ph: "0 \<le> out_ph L index" "out_ph L index < 2"
    using out_ph_range [OF idx(1) pos(1,2)] dims by simp_all
  have pw: "0 \<le> out_pw L index" "out_pw L index < 2"
    using out_pw_range [OF idx(1) pos(1)] dims by simp_all
  have n: "out_n L index = 0"
    using dims idx by (intro out_n_444)
  have p01: "out_pl L index \<in> {0, 1}" "out_ph L index \<in> {0, 1}" "out_pw L index \<in> {0, 1}"
    using pl ph pw by auto
  have boxes: "lstart_of L bottom_rois index = 2 * out_pl L index"
    "lend_of L bottom_rois index = 2 * out_pl L index + 2"
    "hstart_of L bottom_rois index = 2 * out_ph L index"
    "hend_of L bottom_rois index = 2 * out_ph L index + 2"
    "wstart_of L bottom_rois index = 2 * out_pw L index"
    "wend_of L bottom_rois index = 2 * out_pw L index + 2"
    by (simp_all add: box_defs n roi dims bin_444 pl ph pw)
  have n0: "out_n L 0 = 0" "out_pl L 0 = 0" "out_ph L 0 = 0" "out_pw L 0 = 0" "out_c L 0 = 0"
    by (simp_all add: out_defs)
  have box0: "lstart_of L bottom_rois 0 = 0" "lend_of L bottom_rois 0 = 2"
    "hstart_of L bottom_rois 0 = 0" "hend_of L bottom_rois 0 = 2"
    "wstart_of L bottom_rois 0 = 0" "wend_of L bottom_rois 0 = 2"
    "data_offset_of L bottom_rois 0 = 0"
    by (simp_all add: box_defs data_offset_of_def n0 roi dims bin_444)
  have ne: "\<not> is_empty_of L bottom_rois 0"
    by (simp add: is_empty_of_def box0)
  have "top0_data (Forward_gpu L 1 bottom_data bottom_rois st) 0 =
          fst (ROIPoolForward_body L bottom_data bottom_rois 0)"
    by (simp add: Forward_gpu_top dims)
  also have "\<dots> = Max {- FLT_MAX,
            bottom_data (bottom_index L 0 0 0), bottom_data (bottom_index L 0 0 1),
            bottom_data (bottom_index L 0 1 0), bottom_data (bottom_index L 0 1 1),
            bottom_data (bottom_index L 1 0 0), bottom_data (bottom_index L 1 0 1),
            bottom_data (bottom_index L 1 1 0), bottom_data (bottom_index L 1 1 1)}"
  proof -
    have "insert (- FLT_MAX)
        ((\<lambda>c. bottom_data (0 + bottom_index L (fst c) (fst (snd c)) (snd (snd c)))) `
         set [(0, 0, 0), (0, 0, 1), (0, 1, 0), (0, 1, 1), (1, 0, 0), (1, 0, 1), (1, 1, 0),
              (1, 1, 1)]) =
       {- FLT_MAX,
            bottom_data (bottom_index L 0 0 0), bottom_data (bottom_index L 0 0 1),
            bottom_data (bottom_index L 0 1 0), bottom_data (bottom_index L 0 1 1),
            bottom_data (bottom_index L 1 0 0), bottom_data (bottom_index L 1 0 1),
            bottom_data (bottom_index L 1 1 0), bottom_data (bottom_index L 1 1 1)}"
      by simp
    then show ?thesis
      by (simp only: ROIPoolForward_body_fst_Max [OF ne] box0 box_cells_cube)
  qed
  finally have top: "top0_data (Forward_gpu L 1 bottom_data bottom_rois st) 0 =
       Max {- FLT_MAX,
            bottom_data (bottom_index L 0 0 0), bottom_data (bottom_index L 0 0 1),
            bottom_data (bottom_index L 0 1 0), bottom_data (bottom_index L 0 1 1),
            bottom_data (bottom_index L 1 0 0), bottom_data (bottom_index L 1 0 1),
            bottom_data (bottom_index L 1 1 0), bottom_data (bottom_index L 1 1 1)}" .
  show ?thesis
    by (intro conjI p01 boxes top)
qed

theorem C7_round_trip_example_witness:
  "out_pl L_444 7 \<in> {0, 1} \<and> lstart_of L_444 rois_444 7 = 2 \<and> lend_of L_444 rois_444 7 = 4 \<and>
   top0_data (Forward_gpu L_444 1 (\<lambda>i. real_of_int i) rois_444 bufs0) 0 = 21"
proof -
  have idx: "(0::int) \<le> 7" "(7::int) < 8" by simp_all
  have pl: "out_pl L_444 7 = 1"
    by (simp add: out_pl_def L_444_dims signed_divide_int_def signed_modulo_int_def)
  show ?thesis
    using C7_round_trip_example [OF L_444_dims(3,1,2,4,5,6,7) L_444_rois idx,
        of "\<lambda>i. real_of_int i" bufs0]
    by (simp add: pl L_444_bottom_index FLT_MAX_def)
qed

section \<open>Forward: determinism\<close>

text \<open>
  C6. The forward kernel is a function of the feature volume, the region list, the scale
  factors and the shapes. Two runs on the same inputs, whatever the order in which each
  run executes its units of work (two schedules over the same set of indices), started on
  the same buffers end with identical buffers; started on buffers of different contents,
  they end with identical pooled outputs and identical selection indices at every output
  position.
\<close>

theorem C6_forward_deterministic:
  assumes "set sched1 = set sched2"
  shows "ROIPoolForward_sched sched1 L bottom_data bottom_rois st =
           ROIPoolForward_sched sched2 L bottom_data bottom_rois st \<and>
         (\<forall>i \<in> set sched1.
            top0_data (ROIPoolForward_sched sched1 L bottom_data bottom_rois st1) i =
              top0_data (ROIPoolForward_sched sched2 L bottom_data bottom_rois st2) i \<and>
            max_idx_data (ROIPoolForward_sched sched1 L bottom_data bottom_rois st1) i =
              max_idx_data (ROIPoolForward_sched sched2 L bottom_data bottom_rois st2) i)"
proof
  show "ROIPoolForward_sched sched1 L bottom_data bottom_rois st =
           ROIPoolForward_sched sched2 L bottom_data bottom_rois st"
  proof (rule fwd_bufs.equality)
    show "top0_data (ROIPoolForward_sched sched1 L bottom_data bottom_rois st) =
            top0_data (ROIPoolForward_sched sched2 L bottom_data bottom_rois st)"
      using assms by (intro ext) (simp add: ROIPoolForward_sched_top)
    show "max_idx_data (ROIPoolForward_sched sched1 L bottom_data bottom_rois st) =
            max_idx_data (ROIPoolForward_sched sched2 L bottom_data bottom_rois st)"
      using assms by (intro ext) (simp add: ROIPoolForward_sched_argmax)
  qed simp
  show "\<forall>i \<in> set sched1.
            top0_data (ROIPoolForward_sched sched1 L bottom_data bottom_rois st1) i =
              top0_data (ROIPoolForward_sched sched2 L bottom_data bottom_rois st2) i \<and>
            max_idx_data (ROIPoolForward_sched sched1 L bottom_data bottom_rois st1) i =
              max_idx_data (ROIPoolForward_sched sched2 L bottom_data bottom_rois st2) i"
    using assms by (simp add: ROIPoolForward_sched_top ROIPoolForward_sched_argmax)
qed

theorem C6_forward_deterministic_witness:
  "set [0, 1 :: int] = set [1, 0] \<and>
   ROIPoolForward_sched [0, 1] L_w2 (\<lambda>i. real_of_int i) rois_full bufs0 =
     ROIPoolForward_sched [1, 0] L_w2 (\<lambda>i. real_of_int i) rois_full bufs0 \<and>
   top0_data (ROIPoolForward_sched [0, 1] L_w2 (\<lambda>i. real_of_int i) rois_full bufs0) 0 =
     top0_data (ROIPoolForward_sched [1, 0] L_w2 (\<lambda>i. real_of_int i) rois_full
       (bufs0\<lparr>top0_data := (\<lambda>i. 5)\<rparr>)) 0"
proof -
  have h: "set [0, 1 :: int] = set [1, 0]" by auto
  note T = C6_forward_deterministic [OF h, of L_w2 "\<lambda>i. real_of_int i" rois_full bufs0 bufs0
      "bufs0\<lparr>top0_data := (\<lambda>i. 5)\<rparr>"]
  note a = T [THEN conjunct1]
  have b: "top0_data (ROIPoolForward_sched [0, 1] L_w2 (\<lambda>i. real_of_int i) rois_full bufs0) 0 =
     top0_data (ROIPoolForward_sched [1, 0] L_w2 (\<lambda>i. real_of_int i) rois_full
       (bufs0\<lparr>top0_data := (\<lambda>i. 5)\<rparr>)) 0"
    using T [THEN conjunct2] by simp
  show ?thesis
    using h a b by (intro conjI)
qed

section \<open>Backward: the contents of the gradient buffer\<close>

lemma ROIPoolBackward_unit_diff:
  "bottom_diff (ROIPoolBackward_unit L top_diff argmax_data num_rois bottom_rois index st) =
     (bottom_diff st)
       (index := ROIPoolBackward_body L top_diff argmax_data num_rois bottom_rois index)"
  by (simp add: ROIPoolBackward_unit_def Let_def)

lemma ROIPoolBackward_sched_diff:
  "bottom_diff (ROIPoolBackward_sched sched L top_diff argmax_data num_rois bottom_rois st) i =
     (if i \<in> set sched
      then ROIPoolBackward_body L top_diff argmax_data num_rois bottom_rois i
      else bottom_diff st i)"
  unfolding ROIPoolBackward_sched_def
  by (induction sched arbitrary: st) (simp_all add: ROIPoolBackward_unit_def Let_def)

lemma ROIPoolBackward_sched_writes:
  "unit_writes (ROIPoolBackward_sched sched L top_diff argmax_data num_rois bottom_rois st) =
     unit_writes st @
     map (\<lambda>i. (i, ROIPoolBackward_body L top_diff argmax_data num_rois bottom_rois i)) sched"
  unfolding ROIPoolBackward_sched_def
  by (induction sched arbitrary: st) (simp_all add: ROIPoolBackward_unit_def Let_def)

lemma Backward_gpu_diff:
  "bottom_diff (Backward_gpu L True num num_rois top_diff argmax_data bottom_rois st) i =
     (if 0 \<le> i \<and> i < num * channels L * length_dim L * height L * width L
      then ROIPoolBackward_body L top_diff argmax_data num_rois bottom_rois i
      else bottom_diff st i)"
  by (simp add: Backward_gpu_def ROIPoolBackward_def Let_def ROIPoolBackward_sched_diff
      caffe_gpu_set_def)

section \<open>Backward: elements that no region and bin matches\<close>

lemma fold_unchanged:
  assumes "\<And>x. x \<in> set xs \<Longrightarrow> f x s = s"
  shows "fold f xs s = s"
  using assms by (induction xs) simp_all

lemma accumulate_no_hit:
  assumes "\<not> bin_hit L argmax_data roi_n c l h w pl ph pw"
  shows "accumulate_bin L top_diff argmax_data (top_offset L roi_n c) l h w pl ph pw gradient
           = gradient"
  using assms by (simp add: accumulate_bin_def bin_hit_def)

lemma ROIPoolBackward_roi_unmatched:
  assumes "\<not> roi_matches L argmax_data bottom_rois n c l h w roi_n"
  shows "ROIPoolBackward_roi L top_diff argmax_data bottom_rois n c l h w roi_n gradient
           = gradient"
proof (cases "roi_covers L bottom_rois n l h w roi_n")
  case False
  then show ?thesis by (auto simp: ROIPoolBackward_roi_eq roi_covers_def)
next
  case True
  with assms have no_hit: "\<not> bin_hit L argmax_data roi_n c l h w pl ph pw"
    if "pl \<in> set [plstart_of L bottom_rois roi_n l..plend_of L bottom_rois roi_n l - 1]"
      "ph \<in> set [phstart_of L bottom_rois roi_n h..phend_of L bottom_rois roi_n h - 1]"
      "pw \<in> set [pwstart_of L bottom_rois roi_n w..pwend_of L bottom_rois roi_n w - 1]"
    for pl ph pw
    using that unfolding roi_matches_def by blast
  have "fold (\<lambda>pl. fold (\<lambda>ph. fold (\<lambda>pw. accumulate_bin L top_diff argmax_data
                                                   (top_offset L roi_n c) l h w pl ph pw)
                    [pwstart_of L bottom_rois roi_n w..pwend_of L bottom_rois roi_n w - 1])
                  [phstart_of L bottom_rois roi_n h..phend_of L bottom_rois roi_n h - 1])
                [plstart_of L bottom_rois roi_n l..plend_of L bottom_rois roi_n l - 1] gradient
          = gradient"
    by (intro fold_unchanged accumulate_no_hit no_hit)
  then show ?thesis by (simp add: ROIPoolBackward_roi_eq)
qed

lemma ROIPoolBackward_body_unmatched:
  assumes "\<not> matched L argmax_data num_rois bottom_rois index"
  shows "ROIPoolBackward_body L top_diff argmax_data num_rois bottom_rois index = 0"
  unfolding ROIPoolBackward_body_eq
  using assms unfolding matched_def
  by (intro fold_unchanged ROIPoolBackward_roi_unmatched) blast

lemma L_w2_in:
  "in_n L_w2 0 = 0" "in_c L_w2 0 = 0" "in_l L_w2 0 = 0" "in_h L_w2 0 = 0" "in_w L_w2 0 = 0"
  "in_n L_w2 1 = 0" "in_c L_w2 1 = 0" "in_l L_w2 1 = 0" "in_h L_w2 1 = 0" "in_w L_w2 1 = 1"
  by (simp_all add: in_defs L_w2_dims signed_divide_int_def signed_modulo_int_def)

lemma ceiling_half: "\<lceil>1 / 2 :: real\<rceil> = 1"
  by (simp add: ceiling_eq_iff)

lemmas cand_eval = cand_defs pool_start_def pool_end_def bin_size_def num_eval ceiling_half

lemma L_w2_full_cand:
  "plstart_of L_w2 rois_full 0 0 = 0" "plend_of L_w2 rois_full 0 0 = 1"
  "phstart_of L_w2 rois_full 0 0 = 0" "phend_of L_w2 rois_full 0 0 = 1"
  "pwstart_of L_w2 rois_full 0 0 = 0" "pwend_of L_w2 rois_full 0 0 = 1"
  "pwstart_of L_w2 rois_full 0 1 = 0" "pwend_of L_w2 rois_full 0 1 = 1"
  by (simp_all add: cand_eval roi_extent_small L_w2_full_rois L_w2_dims)

lemma L_w2_full_covers:
  "roi_covers L_w2 rois_full 0 0 0 0 0" "roi_covers L_w2 rois_full 0 0 0 1 0"
  by (simp_all add: roi_covers_def in_roi_def L_w2_full_rois)

lemma L_w2_full_body:
  "ROIPoolBackward_body L_w2 (\<lambda>i. 1) (\<lambda>i. 1) 1 rois_full 0 = 0"
  "ROIPoolBackward_body L_w2 (\<lambda>i. 1) (\<lambda>i. 1) 1 rois_full 1 = 1"
  using L_w2_full_covers
  by (simp_all add: ROIPoolBackward_body_eq ROIPoolBackward_roi_eq roi_covers_def L_w2_in
      L_w2_full_cand accumulate_bin_def top_offset_def L_w2_dims)

section \<open>Backward: one write per address, on a zeroed buffer\<close>

text \<open>
  C8 as stated fails: when \<^verbatim>\<open>propagate_down[0]\<close> is false, \<open>Backward_gpu\<close> returns at once
  (line 191). No unit of work runs, the gradient buffer is not zero-initialised, and an
  input coordinate matched by no region and bin keeps the value the buffer held before the
  call, here 9.
\<close>

theorem C8_backward_writes_counterexample:
  "\<not> matched L_w2 (\<lambda>i. 1) 1 rois_full 0 \<and>
   bottom_diff (Backward_gpu L_w2 False 1 1 (\<lambda>i. 1) (\<lambda>i. 1) rois_full bwd0) 0 = 9 \<and>
   unit_writes (Backward_gpu L_w2 False 1 1 (\<lambda>i. 1) (\<lambda>i. 1) rois_full bwd0) = []"
proof -
  have m: "\<not> matched L_w2 (\<lambda>i. 1) 1 rois_full 0"
    by (simp add: matched_def roi_matches_def roi_covers_def in_roi_def bin_hit_def L_w2_in
        L_w2_full_rois L_w2_full_cand L_w2_dims)
  show ?thesis
    using m by (simp add: Backward_gpu_def bwd0_def)
qed

text \<open>
  C8, amended. When \<^verbatim>\<open>propagate_down[0]\<close> holds, \<open>Backward_gpu\<close> runs the kernel on the
  buffer that \<open>caffe_gpu_set\<close> has filled with 0 at the \<open>count\<close> addresses of the input
  gradient. The unit of work for \<open>index\<close> changes the buffer at the one address \<open>index\<close>,
  where it stores the gradient that the kernel body computes for \<open>index\<close>. The units that
  run are those of the indices \<open>0, ..., count - 1\<close>, so each of these addresses is written
  exactly once (the trace of the writes is the list of the pairs of an address and its
  gradient, in which no address is repeated), each of them holds its gradient at the end
  of the call, and no other address changes. Every address whose input coordinate is
  matched by no region and bin holds 0 at the end of the call.
\<close>

theorem C8_backward_writes:
  fixes L num
  defines "count \<equiv> num * channels L * length_dim L * height L * width L"
  assumes "propagate_down0"
  shows "Backward_gpu L propagate_down0 num num_rois top_diff argmax_data bottom_rois st =
           ROIPoolBackward count L top_diff argmax_data num_rois bottom_rois
             (st\<lparr>bottom_diff := caffe_gpu_set count 0 (bottom_diff st)\<rparr>) \<and>
         (\<forall>i. 0 \<le> i \<and> i < count \<longrightarrow> caffe_gpu_set count 0 (bottom_diff st) i = 0) \<and>
         (\<forall>index st'.
            bottom_diff (ROIPoolBackward_unit L top_diff argmax_data num_rois bottom_rois
                           index st') =
              (bottom_diff st')
                (index := ROIPoolBackward_body L top_diff argmax_data num_rois bottom_rois
                            index)) \<and>
         unit_writes (Backward_gpu L propagate_down0 num num_rois top_diff argmax_data
                        bottom_rois st) =
           unit_writes st @
           map (\<lambda>i. (i, ROIPoolBackward_body L top_diff argmax_data num_rois bottom_rois i))
               [0..count - 1] \<and>
         distinct [0..count - 1] \<and> set [0..count - 1] = {i. 0 \<le> i \<and> i < count} \<and>
         (\<forall>i. 0 \<le> i \<and> i < count \<longrightarrow>
            bottom_diff (Backward_gpu L propagate_down0 num num_rois top_diff argmax_data
                           bottom_rois st) i =
              ROIPoolBackward_body L top_diff argmax_data num_rois bottom_rois i) \<and>
         (\<forall>i. \<not> (0 \<le> i \<and> i < count) \<longrightarrow>
            bottom_diff (Backward_gpu L propagate_down0 num num_rois top_diff argmax_data
                           bottom_rois st) i = bottom_diff st i) \<and>
         (\<forall>i. 0 \<le> i \<and> i < count \<and> \<not> matched L argmax_data num_rois bottom_rois i \<longrightarrow>
            bottom_diff (Backward_gpu L propagate_down0 num num_rois top_diff argmax_data
                           bottom_rois st) i = 0)"
proof (intro conjI allI impI)
  show "Backward_gpu L propagate_down0 num num_rois top_diff argmax_data bottom_rois st =
           ROIPoolBackward count L top_diff argmax_data num_rois bottom_rois
             (st\<lparr>bottom_diff := caffe_gpu_set count 0 (bottom_diff st)\<rparr>)"
    using assms(2) by (simp add: Backward_gpu_def count_def Let_def)
  show "caffe_gpu_set count 0 (bottom_diff st) i = 0" if "0 \<le> i \<and> i < count" for i
    using that by (simp add: caffe_gpu_set_def)
  show "bottom_diff (ROIPoolBackward_unit L top_diff argmax_data num_rois bottom_rois
                           index st') =
              (bottom_diff st')
                (index := ROIPoolBackward_body L top_diff argmax_data num_rois bottom_rois
                            index)" for index st'
    by (rule ROIPoolBackward_unit_diff)
  show "unit_writes (Backward_gpu L propagate_down0 num num_rois top_diff argmax_data
                        bottom_rois st) =
           unit_writes st @
           map (\<lambda>i. (i, ROIPoolBackward_body L top_diff argmax_data num_rois bottom_rois i))
               [0..count - 1]"
    using assms(2)
    by (simp add: Backward_gpu_def count_def Let_def ROIPoolBackward_def
        ROIPoolBackward_sched_writes)
  show "distinct [0..count - 1]" by simp
  show "set [0..count - 1] = {i. 0 \<le> i \<and> i < count}" by auto
  show "bottom_diff (Backward_gpu L propagate_down0 num num_rois top_diff argmax_data
                           bottom_rois st) i =
              ROIPoolBackward_body L top_diff argmax_data num_rois bottom_rois i"
    if "0 \<le> i \<and> i < count" for i
    using that assms(2) by (simp add: Backward_gpu_diff count_def)
  show "bottom_diff (Backward_gpu L propagate_down0 num num_rois top_diff argmax_data
                           bottom_rois st) i = bottom_diff st i"
    if "\<not> (0 \<le> i \<and> i < count)" for i
    using that assms(2) by (auto simp: Backward_gpu_diff count_def)
  show "bottom_diff (Backward_gpu L propagate_down0 num num_rois top_diff argmax_data
                           bottom_rois st) i = 0"
    if "0 \<le> i \<and> i < count \<and> \<not> matched L argmax_data num_rois bottom_rois i" for i
    using that assms(2)
    by (simp add: Backward_gpu_diff count_def ROIPoolBackward_body_unmatched)
qed

theorem C8_backward_writes_witness:
  "unit_writes (Backward_gpu L_w2 True 1 1 (\<lambda>i. 1) (\<lambda>i. 1) rois_full bwd0)
     = [(0, 0), (1, 1)] \<and>
   \<not> matched L_w2 (\<lambda>i. 1) 1 rois_full 0 \<and>
   bottom_diff (Backward_gpu L_w2 True 1 1 (\<lambda>i. 1) (\<lambda>i. 1) rois_full bwd0) 0 = 0 \<and>
   bottom_diff (Backward_gpu L_w2 True 1 1 (\<lambda>i. 1) (\<lambda>i. 1) rois_full bwd0) 1 = 1 \<and>
   bottom_diff (Backward_gpu L_w2 True 1 1 (\<lambda>i. 1) (\<lambda>i. 1) rois_full bwd0) 2 = 9 \<and>
   bottom_diff bwd0 0 = 9"
proof -
  have m: "\<not> matched L_w2 (\<lambda>i. 1) 1 rois_full 0"
    by (simp add: matched_def roi_matches_def roi_covers_def in_roi_def bin_hit_def L_w2_in
        L_w2_full_rois L_w2_full_cand L_w2_dims)
  have c: "(1::int) * channels L_w2 * length_dim L_w2 * height L_w2 * width L_w2 = 2"
    by (simp add: L_w2_dims)
  note T = C8_backward_writes [of True L_w2 1 1 "\<lambda>i. 1" "\<lambda>i. 1" rois_full bwd0, OF TrueI,
      unfolded c]
  note w = T [THEN conjunct2, THEN conjunct2, THEN conjunct2, THEN conjunct1]
  note v = T [THEN conjunct2, THEN conjunct2, THEN conjunct2, THEN conjunct2, THEN conjunct2,
      THEN conjunct2, THEN conjunct1, THEN spec, of 1]
  note f = T [THEN conjunct2, THEN conjunct2, THEN conjunct2, THEN conjunct2, THEN conjunct2,
      THEN conjunct2, THEN conjunct2, THEN conjunct1, THEN spec, of 2]
  note u = T [THEN conjunct2, THEN conjunct2, THEN conjunct2, THEN conjunct2, THEN conjunct2,
      THEN conjunct2, THEN conjunct2, THEN conjunct2, THEN spec, of 0]
  show ?thesis
    using w v f u m by (simp add: bwd0_def upto_0_1 L_w2_full_body)
qed

section \<open>Rounded bin sizes\<close>

text \<open>The single-precision values of the bin sizes \<open>57 / 7\<close> and \<open>4 / 28\<close> and of the
  products and quotients that the kernels form with them.\<close>

lemma fl_57_7: "fl Single (57 / 7) = 8538405 / 2 ^ 20"
proof -
  have r: "round_even (57 / 7 * 2 ^ 20) = 8538405"
    by (rule round_even_eqI) simp
  from fl_Single_posI [of "57 / 7" 20, OF _ _ r]
  show ?thesis by simp
qed

lemma fl_6_bs57: "fl Single (6 * (8538405 / 2 ^ 20)) = 12807608 / 2 ^ 18"
proof -
  have "6 * (8538405 / 2 ^ 20) * 2 ^ 18 = real_of_int 12807607 + 1 / 2" by simp
  then have r: "round_even (6 * (8538405 / 2 ^ 20) * 2 ^ 18) = 12807608"
    by (simp only: round_even_tie) simp
  from fl_Single_posI [of "6 * (8538405 / 2 ^ 20)" 18, OF _ _ r]
  show ?thesis by simp
qed

lemma fl_7_bs57: "fl Single (7 * (8538405 / 2 ^ 20)) = 14942209 / 2 ^ 18"
proof -
  have r: "round_even (7 * (8538405 / 2 ^ 20) * 2 ^ 18) = 14942209"
    by (rule round_even_eqI) simp
  from fl_Single_posI [of "7 * (8538405 / 2 ^ 20)" 18, OF _ _ r]
  show ?thesis by simp
qed

lemma fl_1_7: "fl Single (1 / 7) = 9586981 / 2 ^ 26"
proof -
  have r: "round_even (1 / 7 * 2 ^ 26) = 9586981"
    by (rule round_even_eqI) simp
  from fl_Single_posI [of "1 / 7" 26, OF _ _ r]
  show ?thesis by simp
qed

lemma fl_20_bs7: "fl Single (20 * (9586981 / 2 ^ 26)) = 11983726 / 2 ^ 22"
proof -
  have r: "round_even (20 * (9586981 / 2 ^ 26) * 2 ^ 22) = 11983726"
    by (rule round_even_eqI) simp
  from fl_Single_posI [of "20 * (9586981 / 2 ^ 26)" 22, OF _ _ r]
  show ?thesis by simp
qed

lemma fl_21_bs7: "fl Single (21 * (9586981 / 2 ^ 26)) = 12582913 / 2 ^ 22"
proof -
  have r: "round_even (21 * (9586981 / 2 ^ 26) * 2 ^ 22) = 12582913"
    by (rule round_even_eqI) simp
  from fl_Single_posI [of "21 * (9586981 / 2 ^ 26)" 22, OF _ _ r]
  show ?thesis by simp
qed

lemma fl_3_div_bs7: "fl Single (3 / (9586981 / 2 ^ 26)) = 11010048 / 2 ^ 19"
proof -
  have r: "round_even (3 / (9586981 / 2 ^ 26) * 2 ^ 19) = 11010048"
    by (rule round_even_eqI) simp
  from fl_Single_posI [of "3 / (9586981 / 2 ^ 26)" 19, OF _ _ r]
  show ?thesis by simp
qed

lemma fl_4_div_bs7: "fl Single (4 / (9586981 / 2 ^ 26)) = 14680063 / 2 ^ 19"
proof -
  have r: "round_even (4 / (9586981 / 2 ^ 26) * 2 ^ 19) = 14680063"
    by (rule round_even_eqI) simp
  from fl_Single_posI [of "4 / (9586981 / 2 ^ 26)" 19, OF _ _ r]
  show ?thesis by simp
qed

lemma fl_m1 [simp]: "fl D (- 1) = - 1"
  using fl_int [of "- 1" D] by simp

lemma c_round_m1 [simp]: "c_round (- 1) = - 1"
  using c_round_int [of "- 1"] by simp

lemma c_floor_0 [simp]: "c_floor 0 = 0"
  by (simp add: c_floor_def sat32_def)

lemma c_ceil_1 [simp]: "c_ceil 1 = 1"
  by (simp add: c_ceil_def sat32_def)

lemma bin_size_unit: "bin_size D 1 1 = 1"
  by (simp add: bin_size_def)

lemma bin_unit:
  "bin_start D 0 1 1 1 0 = 0" "bin_end D 0 1 1 1 0 = 1"
  by (simp_all add: bin_start_def bin_end_def bin_size_unit num_eval)

lemma pool_unit:
  "pool_start D 0 1 1 0 = 0" "pool_end D 0 1 1 0 = 1"
  by (simp_all add: pool_start_def pool_end_def bin_size_unit num_eval)

lemma bin_size_57_7: "bin_size Single 57 7 = 8538405 / 2 ^ 20"
proof -
  have "to_Dtype Single 57 / to_Dtype Single 7 = 57 / 7"
    by (simp add: to_Dtype_numeral)
  then show ?thesis
    unfolding bin_size_def by (simp only: fl_57_7)
qed

lemma bin_57_7_floor_6: "c_floor (fl Single (to_Dtype Single 6 * bin_size Single 57 7)) = 48"
proof -
  have "to_Dtype Single 6 * bin_size Single 57 7 = 6 * (8538405 / 2 ^ 20)"
    by (simp add: to_Dtype_numeral bin_size_57_7)
  then have e: "fl Single (to_Dtype Single 6 * bin_size Single 57 7) = 12807608 / 2 ^ 18"
    by (simp only: fl_6_bs57)
  show ?thesis unfolding c_floor_def e by (simp add: sat32_def)
qed

lemma bin_57_7_ceil_7: "c_ceil (fl Single (to_Dtype Single 7 * bin_size Single 57 7)) = 58"
proof -
  have "to_Dtype Single 7 * bin_size Single 57 7 = 7 * (8538405 / 2 ^ 20)"
    by (simp add: to_Dtype_numeral bin_size_57_7)
  then have e: "fl Single (to_Dtype Single 7 * bin_size Single 57 7) = 14942209 / 2 ^ 18"
    by (simp only: fl_7_bs57)
  show ?thesis unfolding c_ceil_def e by (simp add: sat32_def)
qed

lemma bin_size_4_28: "bin_size Single 4 28 = 9586981 / 2 ^ 26"
proof -
  have "to_Dtype Single 4 / to_Dtype Single 28 = 1 / 7"
    by (simp add: to_Dtype_numeral)
  then show ?thesis
    unfolding bin_size_def by (simp only: fl_1_7)
qed

lemma bin_4_28_floor_20: "c_floor (fl Single (to_Dtype Single 20 * bin_size Single 4 28)) = 2"
proof -
  have "to_Dtype Single 20 * bin_size Single 4 28 = 20 * (9586981 / 2 ^ 26)"
    by (simp add: to_Dtype_numeral bin_size_4_28)
  then have e: "fl Single (to_Dtype Single 20 * bin_size Single 4 28) = 11983726 / 2 ^ 22"
    by (simp only: fl_20_bs7)
  show ?thesis unfolding c_floor_def e by (simp add: sat32_def)
qed

lemma bin_4_28_ceil_21: "c_ceil (fl Single (to_Dtype Single 21 * bin_size Single 4 28)) = 4"
proof -
  have "to_Dtype Single 21 * bin_size Single 4 28 = 21 * (9586981 / 2 ^ 26)"
    by (simp add: to_Dtype_numeral bin_size_4_28)
  then have e: "fl Single (to_Dtype Single 21 * bin_size Single 4 28) = 12582913 / 2 ^ 22"
    by (simp only: fl_21_bs7)
  show ?thesis unfolding c_ceil_def e by (simp add: sat32_def)
qed

lemma pool_4_28_floor_3: "c_floor (fl Single (to_Dtype Single 3 / bin_size Single 4 28)) = 21"
proof -
  have "to_Dtype Single 3 / bin_size Single 4 28 = 3 / (9586981 / 2 ^ 26)"
    by (simp add: to_Dtype_numeral bin_size_4_28)
  then have e: "fl Single (to_Dtype Single 3 / bin_size Single 4 28) = 11010048 / 2 ^ 19"
    by (simp only: fl_3_div_bs7)
  show ?thesis unfolding c_floor_def e by (simp add: sat32_def)
qed

lemma pool_4_28_ceil_4: "c_ceil (fl Single (to_Dtype Single 4 / bin_size Single 4 28)) = 28"
proof -
  have "to_Dtype Single 4 / bin_size Single 4 28 = 4 / (9586981 / 2 ^ 26)"
    by (simp add: to_Dtype_numeral bin_size_4_28)
  then have e: "fl Single (to_Dtype Single 4 / bin_size Single 4 28) = 14680063 / 2 ^ 19"
    by (simp only: fl_4_div_bs7)
  show ?thesis unfolding c_ceil_def e by (simp add: sat32_def)
qed

section \<open>Forward: degenerate regions\<close>

text \<open>For a region inverted on an axis, the extent is 1 as long as the difference of its
  boundaries fits the type \<^verbatim>\<open>int\<close>; at the extremes of \<^verbatim>\<open>int\<close> the difference wraps
  around.\<close>

lemma roi_extent_ge1: "1 \<le> roi_extent s e"
  by (simp add: roi_extent_def)

lemma roi_extent_inverted:
  assumes "roi_end < roi_start" "- (2 ^ 31) \<le> roi_end - roi_start"
  shows "roi_extent roi_start roi_end = 1"
proof -
  have a: "i32 (roi_end - roi_start) = roi_end - roi_start"
    using assms by (intro i32_id) simp_all
  have b: "i32 (roi_end - roi_start + 1) = roi_end - roi_start + 1"
    using assms by (intro i32_id) simp_all
  show ?thesis
    unfolding roi_extent_def a b using assms(1) by simp
qed

lemma roi_extent_wraps: "roi_extent 2147483647 (- 2147483648) = 2"
  by (simp add: roi_extent_def i32_def)

lemma L_w2p7_dims:
  "height L_w2p7 = 1" "width L_w2p7 = 2" "length_dim L_w2p7 = 1" "channels L_w2p7 = 1"
  "pooled_length L_w2p7 = 1" "pooled_height L_w2p7 = 1" "pooled_width L_w2p7 = 7"
  "dtype L_w2p7 = Single" "spatial_scale_xy L_w2p7 = 1" "spatial_scale_z L_w2p7 = 1"
  by (simp_all add: L_w2p7_def)

lemma L_w2p7_rois:
  "roi_batch_ind_of rois_below 0 = 0"
  "roi_start_l_of L_w2p7 rois_below 0 = 0" "roi_start_h_of L_w2p7 rois_below 0 = 0"
  "roi_start_w_of L_w2p7 rois_below 0 = - 57"
  "roi_end_l_of L_w2p7 rois_below 0 = 0" "roi_end_h_of L_w2p7 rois_below 0 = 0"
  "roi_end_w_of L_w2p7 rois_below 0 = - 1"
  by (simp_all add: roi_defs L_w2p7_dims rois_below_def num_eval)

lemma L_w2p7_out:
  "out_n L_w2p7 6 = 0" "out_c L_w2p7 6 = 0" "out_pl L_w2p7 6 = 0" "out_ph L_w2p7 6 = 0"
  "out_pw L_w2p7 6 = 6"
  by (simp_all add: out_defs L_w2p7_dims signed_divide_int_def signed_modulo_int_def)

lemma roi_extent_below: "roi_extent (- 57) (- 1) = 57"
  by (simp add: roi_extent_def num_eval)

lemma bin_below:
  "bin_start Single (- 57) 57 7 2 6 = 0" "bin_end Single (- 57) 57 7 2 6 = 1"
  by (simp_all add: bin_start_def bin_end_def bin_57_7_floor_6 bin_57_7_ceil_7 i32_numeral
      i32_neg_numeral)

lemma L_w2p7_box:
  "lstart_of L_w2p7 rois_below 6 = 0" "lend_of L_w2p7 rois_below 6 = 1"
  "hstart_of L_w2p7 rois_below 6 = 0" "hend_of L_w2p7 rois_below 6 = 1"
  "wstart_of L_w2p7 rois_below 6 = 0" "wend_of L_w2p7 rois_below 6 = 1"
  "data_offset_of L_w2p7 rois_below 6 = 0"
  by (simp_all add: box_defs data_offset_of_def L_w2p7_out L_w2p7_rois L_w2p7_dims
      roi_extent_small roi_extent_below bin_unit bin_below)

lemma L_w2p7_outside: "roi_outside L_w2p7 rois_below 0"
  by (simp add: roi_outside_def roi_outside_axis_def L_w2p7_rois roi_extent_below)

lemma body_w2p7:
  "ROIPoolForward_body L_w2p7 (\<lambda>i. 5) rois_below 6 = (5, 0)"
  by (simp add: ROIPoolForward_body_eq is_empty_of_def L_w2p7_box L_w2p7_dims scan_box_def
      scan_cell_def FLT_MAX_def)

text \<open>
  C3 fails in its second part. For the volume of floats of shape (1,1,1,1,2), pooled shape
  (1,1,7) and the region \<open>(0, -57,0,0, -1,0,0)\<close>, the region's columns -57 to -1 all lie
  below the volume. Its extent is 57 and the bin size is \<open>57 / 7\<close> rounded to single
  precision, a little above \<open>57 / 7\<close>; seven times it, rounded again, is a little above 57,
  so the last bin ends at \<open>ceil\<close> of it, 58, one column past the region's end. After adding
  the region's start and clipping, the last bin is the box \<open>[0, 1)\<close>, which is not empty:
  Forward pools the element at column 0, writing its value 5 and selection index 0, not 0
  and -1.
\<close>

theorem C3_outside_region_pooled:
  "roi_start_w_of L_w2p7 rois_below 0 = - 57 \<and> roi_end_w_of L_w2p7 rois_below 0 = - 1 \<and>
   roi_outside L_w2p7 rois_below 0 \<and> out_n L_w2p7 6 = 0 \<and>
   wstart_of L_w2p7 rois_below 6 = 0 \<and> wend_of L_w2p7 rois_below 6 = 1 \<and>
   top0_data (Forward_gpu L_w2p7 1 (\<lambda>i. 5) rois_below bufs0) 6 = 5 \<and>
   max_idx_data (Forward_gpu L_w2p7 1 (\<lambda>i. 5) rois_below bufs0) 6 = 0"
  by (simp add: L_w2p7_rois L_w2p7_outside L_w2p7_out L_w2p7_box Forward_gpu_top
      Forward_gpu_argmax L_w2p7_dims body_w2p7)

section \<open>Backward: the containment test against the forward bins\<close>

lemma L_w2_inverted_rois:
  "roi_batch_ind_of rois_inverted 0 = 0"
  "roi_start_l_of L_w2 rois_inverted 0 = 0" "roi_start_h_of L_w2 rois_inverted 0 = 0"
  "roi_start_w_of L_w2 rois_inverted 0 = 1"
  "roi_end_l_of L_w2 rois_inverted 0 = 0" "roi_end_h_of L_w2 rois_inverted 0 = 0"
  "roi_end_w_of L_w2 rois_inverted 0 = 0"
  by (simp_all add: roi_defs L_w2_dims rois_inverted_def)

lemma bin_inverted:
  "bin_start Single 1 1 1 2 0 = 1" "bin_end Single 1 1 1 2 0 = 2"
  by (simp_all add: bin_start_def bin_end_def bin_size_unit num_eval)

lemma L_w2_inverted_box:
  "lstart_of L_w2 rois_inverted 0 = 0" "lend_of L_w2 rois_inverted 0 = 1"
  "hstart_of L_w2 rois_inverted 0 = 0" "hend_of L_w2 rois_inverted 0 = 1"
  "wstart_of L_w2 rois_inverted 0 = 1" "wend_of L_w2 rois_inverted 0 = 2"
  "data_offset_of L_w2 rois_inverted 0 = 0"
  by (simp_all add: box_defs data_offset_of_def L_w2_out L_w2_inverted_rois L_w2_dims
      roi_extent_small bin_unit bin_inverted)

lemma body_w2_inverted:
  "ROIPoolForward_body L_w2 (\<lambda>i. real_of_int i) rois_inverted 0 = (1, 1)"
  by (simp add: ROIPoolForward_body_eq is_empty_of_def L_w2_inverted_box L_w2_dims scan_box_def
      scan_cell_def FLT_MAX_def)

text \<open>
  C1 fails on an inverted region. For the volume of shape (1,1,1,1,2) and the region
  \<open>(0, 1,0,0, 0,0,0)\<close>, whose width runs from 1 back to 0, Forward forces the extent to 1,
  pools the element at \<open>w = 1\<close> and stores its flat coordinate 1 as the selection index of
  the region's bin. In Backward that coordinate fails the containment test
  (\<open>1 \<le> 0\<close> is false), so with an output gradient of 1 the element's gradient is 0: the
  gradient of a non-empty bin does not reach its argmax element.
\<close>

theorem C1_inverted_region_gradient_lost:
  "max_idx_data (Forward_gpu L_w2 1 (\<lambda>i. real_of_int i) rois_inverted bufs0) 0
     = bottom_index L_w2 0 0 1 \<and>
   in_bin L_w2 rois_inverted 0 0 0 1 \<and>
   \<not> in_roi L_w2 rois_inverted 0 0 0 1 \<and>
   bottom_diff (Backward_gpu L_w2 True 1 1 (\<lambda>i. 1)
      (max_idx_data (Forward_gpu L_w2 1 (\<lambda>i. real_of_int i) rois_inverted bufs0))
      rois_inverted bwd0) 1 = 0"
proof -
  have a: "max_idx_data (Forward_gpu L_w2 1 (\<lambda>i. real_of_int i) rois_inverted bufs0) 0 = 1"
    by (simp add: Forward_gpu_argmax L_w2_dims body_w2_inverted)
  have b: "in_bin L_w2 rois_inverted 0 0 0 1"
    by (simp add: in_bin_def L_w2_inverted_box)
  have c: "\<not> in_roi L_w2 rois_inverted 0 0 0 1"
    by (simp add: in_roi_def L_w2_inverted_rois)
  have "ROIPoolBackward_body L_w2 (\<lambda>i. 1)
      (max_idx_data (Forward_gpu L_w2 1 (\<lambda>i. real_of_int i) rois_inverted bufs0)) 1
      rois_inverted 1 = 0"
    by (simp add: ROIPoolBackward_body_eq ROIPoolBackward_roi_eq L_w2_in c)
  then have d: "bottom_diff (Backward_gpu L_w2 True 1 1 (\<lambda>i. 1)
      (max_idx_data (Forward_gpu L_w2 1 (\<lambda>i. real_of_int i) rois_inverted bufs0))
      rois_inverted bwd0) 1 = 0"
    by (simp add: Backward_gpu_diff L_w2_dims)
  show ?thesis
    using a b c d by (simp add: L_w2_bottom_index)
qed

text \<open>
  The rounding of the bin size loses cells of regions that are not inverted as well. For the
  volume of floats of shape (1,1,1,1,58), pooled shape (1,1,7) and the region
  \<open>(0, 0,0,0, 56,0,0)\<close>, which lies inside the volume, the last bin ends at column 58 (see
  \<open>bin_57_7_ceil_7\<close>), so the box that Forward scans for it contains column 57, one past
  the region's end, and that column fails the containment test of Backward.
\<close>

lemma L_w58p7_dims:
  "height L_w58p7 = 1" "width L_w58p7 = 58" "length_dim L_w58p7 = 1" "channels L_w58p7 = 1"
  "pooled_length L_w58p7 = 1" "pooled_height L_w58p7 = 1" "pooled_width L_w58p7 = 7"
  "dtype L_w58p7 = Single" "spatial_scale_xy L_w58p7 = 1" "spatial_scale_z L_w58p7 = 1"
  by (simp_all add: L_w58p7_def)

lemma L_w58p7_rois:
  "roi_batch_ind_of rois_056 0 = 0"
  "roi_start_l_of L_w58p7 rois_056 0 = 0" "roi_start_h_of L_w58p7 rois_056 0 = 0"
  "roi_start_w_of L_w58p7 rois_056 0 = 0"
  "roi_end_l_of L_w58p7 rois_056 0 = 0" "roi_end_h_of L_w58p7 rois_056 0 = 0"
  "roi_end_w_of L_w58p7 rois_056 0 = 56"
  by (simp_all add: roi_defs L_w58p7_dims rois_056_def num_eval)

lemma L_w58p7_out:
  "out_n L_w58p7 6 = 0" "out_c L_w58p7 6 = 0" "out_pl L_w58p7 6 = 0" "out_ph L_w58p7 6 = 0"
  "out_pw L_w58p7 6 = 6"
  by (simp_all add: out_defs L_w58p7_dims signed_divide_int_def signed_modulo_int_def)

lemma roi_extent_056: "roi_extent 0 56 = 57"
  by (simp add: roi_extent_def num_eval)

lemma bin_056:
  "bin_start Single 0 57 7 58 6 = 48" "bin_end Single 0 57 7 58 6 = 58"
  by (simp_all add: bin_start_def bin_end_def bin_57_7_floor_6 bin_57_7_ceil_7 i32_numeral)

lemma L_w58p7_box:
  "lstart_of L_w58p7 rois_056 6 = 0" "lend_of L_w58p7 rois_056 6 = 1"
  "hstart_of L_w58p7 rois_056 6 = 0" "hend_of L_w58p7 rois_056 6 = 1"
  "wstart_of L_w58p7 rois_056 6 = 48" "wend_of L_w58p7 rois_056 6 = 58"
  by (simp_all add: box_defs L_w58p7_out L_w58p7_rois L_w58p7_dims
      roi_extent_small roi_extent_056 bin_unit bin_056)

lemma inside_region_cell_fails_test:
  "roi_inside L_w58p7 rois_056 0 \<and> out_n L_w58p7 6 = 0 \<and>
   in_bin L_w58p7 rois_056 6 0 0 57 \<and> \<not> in_roi L_w58p7 rois_056 0 0 0 57"
  by (simp add: roi_inside_def in_bin_def in_roi_def L_w58p7_rois L_w58p7_dims L_w58p7_out
      L_w58p7_box)

section \<open>Backward: the candidate bins against the forward bins\<close>

lemma L_w4p28_dims:
  "height L_w4p28 = 1" "width L_w4p28 = 4" "length_dim L_w4p28 = 1" "channels L_w4p28 = 1"
  "pooled_length L_w4p28 = 1" "pooled_height L_w4p28 = 1" "pooled_width L_w4p28 = 28"
  "dtype L_w4p28 = Single" "spatial_scale_xy L_w4p28 = 1" "spatial_scale_z L_w4p28 = 1"
  by (simp_all add: L_w4p28_def)

lemma L_w4p28_rois:
  "roi_batch_ind_of rois_03 0 = 0"
  "roi_start_l_of L_w4p28 rois_03 0 = 0" "roi_start_h_of L_w4p28 rois_03 0 = 0"
  "roi_start_w_of L_w4p28 rois_03 0 = 0"
  "roi_end_l_of L_w4p28 rois_03 0 = 0" "roi_end_h_of L_w4p28 rois_03 0 = 0"
  "roi_end_w_of L_w4p28 rois_03 0 = 3"
  by (simp_all add: roi_defs L_w4p28_dims rois_03_def num_eval)

lemma L_w4p28_out:
  "out_n L_w4p28 20 = 0" "out_c L_w4p28 20 = 0" "out_pl L_w4p28 20 = 0"
  "out_ph L_w4p28 20 = 0" "out_pw L_w4p28 20 = 20"
  by (simp_all add: out_defs L_w4p28_dims signed_divide_int_def signed_modulo_int_def)

lemma L_w4p28_in:
  "in_n L_w4p28 3 = 0" "in_c L_w4p28 3 = 0" "in_l L_w4p28 3 = 0" "in_h L_w4p28 3 = 0"
  "in_w L_w4p28 3 = 3"
  by (simp_all add: in_defs L_w4p28_dims signed_divide_int_def signed_modulo_int_def)

lemma bin_4_28:
  "bin_start Single 0 4 28 4 20 = 2" "bin_end Single 0 4 28 4 20 = 4"
  by (simp_all add: bin_start_def bin_end_def bin_4_28_floor_20 bin_4_28_ceil_21 i32_numeral)

lemma pool_4_28:
  "pool_start Single 0 4 28 3 = 21" "pool_end Single 0 4 28 3 = 28"
  by (simp_all add: pool_start_def pool_end_def pool_4_28_floor_3 pool_4_28_ceil_4 i32_numeral)

lemma L_w4p28_box:
  "lstart_of L_w4p28 rois_03 20 = 0" "lend_of L_w4p28 rois_03 20 = 1"
  "hstart_of L_w4p28 rois_03 20 = 0" "hend_of L_w4p28 rois_03 20 = 1"
  "wstart_of L_w4p28 rois_03 20 = 2" "wend_of L_w4p28 rois_03 20 = 4"
  "data_offset_of L_w4p28 rois_03 20 = 0"
  by (simp_all add: box_defs data_offset_of_def L_w4p28_out L_w4p28_rois L_w4p28_dims
      roi_extent_small bin_unit bin_4_28)

lemma L_w4p28_cand:
  "plstart_of L_w4p28 rois_03 0 0 = 0" "plend_of L_w4p28 rois_03 0 0 = 1"
  "phstart_of L_w4p28 rois_03 0 0 = 0" "phend_of L_w4p28 rois_03 0 0 = 1"
  "pwstart_of L_w4p28 rois_03 0 3 = 21" "pwend_of L_w4p28 rois_03 0 3 = 28"
  by (simp_all add: cand_defs L_w4p28_rois L_w4p28_dims roi_extent_small pool_unit pool_4_28)

lemma upto_2_3: "[2..3] = [2, 3::int]"
  by (simp add: upto_rec1)

lemma body_w4p28:
  "ROIPoolForward_body L_w4p28 (\<lambda>i. real_of_int i) rois_03 20 = (3, 3)"
  by (simp add: ROIPoolForward_body_eq is_empty_of_def L_w4p28_box L_w4p28_dims scan_box_def
      upto_2_3 scan_cell_def FLT_MAX_def)

lemma fold_zero:
  assumes "\<And>x. x \<in> set xs \<Longrightarrow> f x (0::real) = 0"
  shows "fold f xs 0 = 0"
  using assms by (rule fold_unchanged)

lemma accumulate_zero_diff:
  assumes "top_diff (offset + (pl * pooled_height L * pooled_width L + ph * pooled_width L + pw))
             = 0"
  shows "accumulate_bin L top_diff argmax_data offset l h w pl ph pw 0 = 0"
  using assms by (simp add: accumulate_bin_def)

lemma backward_w4p28:
  "ROIPoolBackward_body L_w4p28 top_diff_20 argmax_data 1 rois_03 3 = 0"
proof -
  have roi: "in_roi L_w4p28 rois_03 0 0 0 3"
    by (simp add: in_roi_def L_w4p28_rois)
  have "fold (\<lambda>pw. accumulate_bin L_w4p28 top_diff_20 argmax_data (top_offset L_w4p28 0 0)
                      0 0 3 0 0 pw) [21..28 - 1] 0 = 0"
    by (intro fold_zero accumulate_zero_diff)
      (auto simp: top_offset_def top_diff_20_def L_w4p28_dims)
  then show ?thesis
    by (simp add: ROIPoolBackward_body_eq ROIPoolBackward_roi_eq L_w4p28_in L_w4p28_rois roi
        L_w4p28_cand)
qed

text \<open>
  C10 fails. For the volume of floats of shape (1,1,1,1,4), pooled shape (1,1,28) and the
  region \<open>(0, 0,0,0, 3,0,0)\<close>, which spans the volume, the bin size is \<open>4 / 28\<close> rounded to
  single precision, a little above \<open>1 / 7\<close>. Forward scans for bin 20 the columns
  \<open>floor (20 * bin_size) = 2\<close> to \<open>ceil (21 * bin_size) - 1 = 3\<close> and, the elements
  increasing with the column, selects column 3. For column 3 Backward computes the
  candidate range from \<open>floor (3 / bin_size) = 21\<close> to \<open>ceil (4 / bin_size) = 28\<close>, which
  does not contain bin 20: with an output gradient that is 1 at bin 20 and 0 elsewhere, the
  gradient of column 3 is 0 and the gradient of bin 20 is lost.
\<close>

theorem C10_candidate_range_misses_bin:
  "roi_inside L_w4p28 rois_03 0 \<and> in_roi L_w4p28 rois_03 0 0 0 3 \<and>
   out_n L_w4p28 20 = 0 \<and> out_pw L_w4p28 20 = 20 \<and>
   in_bin L_w4p28 rois_03 20 0 0 3 \<and>
   pwstart_of L_w4p28 rois_03 0 3 = 21 \<and> pwend_of L_w4p28 rois_03 0 3 = 28 \<and>
   max_idx_data (Forward_gpu L_w4p28 1 (\<lambda>i. real_of_int i) rois_03 bufs0) 20
     = bottom_index L_w4p28 0 0 3 \<and>
   top_diff_20 20 = 1 \<and>
   bottom_diff (Backward_gpu L_w4p28 True 1 1 top_diff_20
      (max_idx_data (Forward_gpu L_w4p28 1 (\<lambda>i. real_of_int i) rois_03 bufs0))
      rois_03 bwd0) 3 = 0"
proof -
  have a: "roi_inside L_w4p28 rois_03 0"
    by (simp add: roi_inside_def L_w4p28_rois L_w4p28_dims)
  have b: "in_roi L_w4p28 rois_03 0 0 0 3"
    by (simp add: in_roi_def L_w4p28_rois)
  have c: "in_bin L_w4p28 rois_03 20 0 0 3"
    by (simp add: in_bin_def L_w4p28_box)
  have d: "max_idx_data (Forward_gpu L_w4p28 1 (\<lambda>i. real_of_int i) rois_03 bufs0) 20
     = bottom_index L_w4p28 0 0 3"
    by (simp add: Forward_gpu_argmax L_w4p28_dims body_w4p28 bottom_index_def)
  have e: "bottom_diff (Backward_gpu L_w4p28 True 1 1 top_diff_20
      (max_idx_data (Forward_gpu L_w4p28 1 (\<lambda>i. real_of_int i) rois_03 bufs0))
      rois_03 bwd0) 3 = 0"
    by (simp add: Backward_gpu_diff L_w4p28_dims backward_w4p28)
  show ?thesis
    using a b c d e by (simp add: L_w4p28_out L_w4p28_cand top_diff_20_def)
qed

end
